theory Spec2Isabelle
  imports Complex_Main "HOL-Library.Word"
begin

section \<open>Strings, as the handlers of server.js use them\<close>

text \<open>
  \<^verbatim>\<open>s.startsWith(p)\<close> and \<^verbatim>\<open>s.endsWith(p)\<close> of JavaScript, on strings as character
  lists.
\<close>

fun startsWith :: "string \<Rightarrow> string \<Rightarrow> bool" where
  "startsWith s [] = True"
| "startsWith [] (p # ps) = False"
| "startsWith (c # cs) (p # ps) = (c = p \<and> startsWith cs ps)"


text \<open>
  The \<^verbatim>\<open>i\<close> flag of a regular expression without the \<^verbatim>\<open>u\<close> flag identifies exactly
  the ASCII letters of different case (a character outside ASCII never folds onto an ASCII
  one), so both the pattern and the subject are folded to lower case.
\<close>

definition lower_char :: "char \<Rightarrow> char" where
  "lower_char c =
     (case map_of (zip ''ABCDEFGHIJKLMNOPQRSTUVWXYZ'' ''abcdefghijklmnopqrstuvwxyz'') c of
        Some d \<Rightarrow> d
      | None \<Rightarrow> c)"

definition lower :: "string \<Rightarrow> string" where
  "lower s = map lower_char s"

text \<open>
  Every pattern of the catalogue is a sequence of literal pieces separated by \<^verbatim>\<open>.*\<close>
  (\<^verbatim>\<open>/Advanced.*Threat/i\<close> is the pieces \<open>Advanced\<close> and \<open>Threat\<close>); the dot
  matches every character but a line terminator. \<open>match_rest\<close> matches the pieces that
  follow a \<^verbatim>\<open>.*\<close>, \<open>match_at\<close> a whole pattern at the start of the subject, and
  \<open>regex_search\<close> tries every start position, as \<^verbatim>\<open>pattern.test(s)\<close> does.
\<close>

definition line_terminator :: "char \<Rightarrow> bool" where
  "line_terminator c = (c = CHR 0x0A \<or> c = CHR 0x0D)"

fun match_rest :: "string list \<Rightarrow> string \<Rightarrow> bool" where
  "match_rest [] s = True"
| "match_rest (g # gs) [] = (g = [] \<and> match_rest gs [])"
| "match_rest (g # gs) (c # cs) =
     ((startsWith (c # cs) g \<and> match_rest gs (drop (length g) (c # cs)))
      \<or> (\<not> line_terminator c \<and> match_rest (g # gs) cs))"

fun match_at :: "string list \<Rightarrow> string \<Rightarrow> bool" where
  "match_at [] s = True"
| "match_at (g # gs) s = (startsWith s g \<and> match_rest gs (drop (length g) s))"

fun regex_search :: "string list \<Rightarrow> string \<Rightarrow> bool" where
  "regex_search pat [] = match_at pat []"
| "regex_search pat (c # cs) = (match_at pat (c # cs) \<or> regex_search pat cs)"

definition regex_test :: "string list \<Rightarrow> string \<Rightarrow> bool" where
  "regex_test pat s = regex_search pat s"

definition regex_test_i :: "string list \<Rightarrow> string \<Rightarrow> bool" where
  "regex_test_i pat s = regex_search (map lower pat) (lower s)"

text \<open>\<^verbatim>\<open>s.trim()\<close> and \<^verbatim>\<open>s.split(',')[0]\<close>, on the 8-bit characters a header holds.\<close>

definition white_space :: "char \<Rightarrow> bool" where
  "white_space c = (c \<in> set [CHR 0x09, CHR 0x0A, CHR 0x0B, CHR 0x0C, CHR 0x0D, CHR 0x20, CHR 0xA0])"

definition trim :: "string \<Rightarrow> string" where
  "trim s = rev (dropWhile white_space (rev (dropWhile white_space s)))"

definition first_field :: "string \<Rightarrow> string" where
  "first_field s = takeWhile (\<lambda>c. c \<noteq> CHR '','') s"

section \<open>Numbers and values of JavaScript\<close>

text \<open>
  A number of JavaScript is an IEEE 754 double: not-a-number, an infinity, or a finite
  value (the two zeros are not told apart: nothing here divides by one or prints one).
  \<open>Fin x\<close> stands for a double when \<open>x\<close> is one, which is when \<open>fl x = Fin x\<close>.
  \<open>fl\<close> rounds a real to the nearest double, ties to the even significand: \<open>expo\<close>
  is the binary exponent of a positive real (at least that of the smallest normal number),
  the spacing of the doubles there is \<open>pow2 (e - 52)\<close>, and a result of \<open>2 ^ 1024\<close> or
  more is an infinity. The operations are those of the language: the exact result, rounded.
\<close>

datatype jsnum = NaN | PInf | NInf | Fin real

function bitlen :: "nat \<Rightarrow> nat" where
  "bitlen n = (if n = 0 then 0 else Suc (bitlen (n div 2)))"
  by pat_completeness auto
termination
  by (relation "measure id") auto

declare bitlen.simps [simp del]

definition expo :: "real \<Rightarrow> int" where
  "expo x = (if x \<ge> 1 then int (bitlen (nat \<lfloor>x\<rfloor>)) - 1
             else - int (bitlen (nat (\<lceil>1 / x\<rceil> - 1))))"

definition round_even :: "real \<Rightarrow> int" where
  "round_even x =
     (let f = \<lfloor>x\<rfloor>; d = x - of_int f
      in if d < 1 / 2 then f else if d > 1 / 2 then f + 1 else if even f then f else f + 1)"

definition pow2 :: "int \<Rightarrow> real" where
  "pow2 e = (if e \<ge> 0 then 2 ^ nat e else 1 / 2 ^ nat (- e))"

definition fl :: "real \<Rightarrow> jsnum" where
  "fl x =
     (if x = 0 then Fin 0
      else
        (let e = max (expo \<bar>x\<bar>) (- 1022);
             q = pow2 (e - 52);
             y = of_int (round_even (\<bar>x\<bar> / q)) * q
         in if y \<ge> 2 ^ 1024 then (if x > 0 then PInf else NInf)
            else Fin (if x > 0 then y else - y)))"

definition js_neg :: "jsnum \<Rightarrow> jsnum" where
  "js_neg a = (case a of NaN \<Rightarrow> NaN | PInf \<Rightarrow> NInf | NInf \<Rightarrow> PInf | Fin x \<Rightarrow> Fin (- x))"

fun js_add :: "jsnum \<Rightarrow> jsnum \<Rightarrow> jsnum" where
  "js_add NaN b = NaN"
| "js_add a NaN = NaN"
| "js_add PInf NInf = NaN"
| "js_add NInf PInf = NaN"
| "js_add PInf b = PInf"
| "js_add NInf b = NInf"
| "js_add a PInf = PInf"
| "js_add a NInf = NInf"
| "js_add (Fin x) (Fin y) = fl (x + y)"

definition js_sub :: "jsnum \<Rightarrow> jsnum \<Rightarrow> jsnum" where
  "js_sub a b = js_add a (js_neg b)"

fun js_mul :: "jsnum \<Rightarrow> jsnum \<Rightarrow> jsnum" where
  "js_mul NaN b = NaN"
| "js_mul a NaN = NaN"
| "js_mul (Fin x) (Fin y) = fl (x * y)"
| "js_mul (Fin x) b = (if x = 0 then NaN else if (x > 0) = (b = PInf) then PInf else NInf)"
| "js_mul a (Fin y) = (if y = 0 then NaN else if (y > 0) = (a = PInf) then PInf else NInf)"
| "js_mul a b = (if a = b then PInf else NInf)"

fun js_ge :: "jsnum \<Rightarrow> jsnum \<Rightarrow> bool" where
  "js_ge NaN b = False"
| "js_ge a NaN = False"
| "js_ge PInf b = True"
| "js_ge a NInf = True"
| "js_ge NInf b = False"
| "js_ge a PInf = False"
| "js_ge (Fin x) (Fin y) = (x \<ge> y)"

definition js_le :: "jsnum \<Rightarrow> jsnum \<Rightarrow> bool" where
  "js_le a b = js_ge b a"

definition js_gt :: "jsnum \<Rightarrow> jsnum \<Rightarrow> bool" where
  "js_gt a b = (js_ge a b \<and> a \<noteq> b)"

definition js_lt :: "jsnum \<Rightarrow> jsnum \<Rightarrow> bool" where
  "js_lt a b = js_gt b a"

text \<open>
  A value of a JSON body. \<open>Undefined\<close> is a field that is absent. An object or an array
  is given by what the code can observe of it: the string its conversion to a primitive
  value yields (\<open>None\<close> when that conversion throws a TypeError, as for an object whose
  own \<^verbatim>\<open>toString\<close> is not a function) and its \<^verbatim>\<open>length\<close> property (the number of
  elements of an array). \<open>truthy_val\<close> is the truth value \<^verbatim>\<open>!v\<close> and
  \<^verbatim>\<open>v || w\<close> test; \<open>StringToNumber\<close> is the conversion of a string to a number
  (white space trimmed, then the empty string, an infinity, a hexadecimal, octal or binary
  integer, or a signed decimal literal with an optional fraction and exponent; anything
  else is not-a-number), on strings of 8-bit characters; \<open>ToNumber\<close> is the conversion
  an arithmetic operator or a comparison with a number applies to an operand;
  \<open>length_of\<close> is \<^verbatim>\<open>v.length\<close> for a truthy \<open>v\<close>; \<open>ToString\<close> is the conversion
  to a string, given the decimal string the language prints for a number; \<open>js_plus\<close> is
  the operator \<^verbatim>\<open>+\<close>, which concatenates when an operand is a string after conversion
  to a primitive value and adds numbers otherwise. \<open>None\<close> is a TypeError thrown.
\<close>

datatype jsval = Undefined | Null | Bool bool | Num jsnum | Str string | Obj "string option" jsval

definition truthy_val :: "jsval \<Rightarrow> bool" where
  "truthy_val v =
     (case v of
        Undefined \<Rightarrow> False
      | Null \<Rightarrow> False
      | Bool b \<Rightarrow> b
      | Num n \<Rightarrow> n \<noteq> NaN \<and> n \<noteq> Fin 0
      | Str s \<Rightarrow> s \<noteq> []
      | Obj p len \<Rightarrow> True)"

definition digit_of :: "char \<Rightarrow> nat option" where
  "digit_of c =
     map_of (zip ''0123456789abcdefABCDEF''
               [0, 1, 2, 3, 4, 5, 6, 7, 8, 9, 10, 11, 12, 13, 14, 15, 10, 11, 12, 13, 14, 15]) c"

definition digit_in :: "nat \<Rightarrow> char \<Rightarrow> bool" where
  "digit_in base c =
     (case digit_of c of None \<Rightarrow> False | Some d \<Rightarrow> d < base)"

definition digits_value :: "nat \<Rightarrow> string \<Rightarrow> nat" where
  "digits_value base ds =
     foldl (\<lambda>a c. base * a + (case digit_of c of None \<Rightarrow> 0 | Some d \<Rightarrow> d)) 0 ds"

text \<open>An exponent part: \<open>e\<close> or \<open>E\<close>, an optional sign, one digit or more.\<close>

definition exponent_part :: "string \<Rightarrow> int option" where
  "exponent_part s =
     (case s of
        [] \<Rightarrow> Some 0
      | c # r \<Rightarrow>
          if c = CHR ''e'' \<or> c = CHR ''E'' then
            (let (neg, ds) = (case r of
                                [] \<Rightarrow> (False, [])
                              | d # r' \<Rightarrow> if d = CHR ''-'' then (True, r')
                                          else if d = CHR ''+'' then (False, r') else (False, r))
             in if ds \<noteq> [] \<and> list_all (digit_in 10) ds
                then Some (if neg then - int (digits_value 10 ds) else int (digits_value 10 ds))
                else None)
          else None)"

definition pow10 :: "int \<Rightarrow> real" where
  "pow10 e = (if e \<ge> 0 then 10 ^ nat e else 1 / 10 ^ nat (- e))"

text \<open>An unsigned decimal literal: its mathematical value, or \<open>None\<close> when it is none.\<close>

definition unsigned_decimal :: "string \<Rightarrow> real option" where
  "unsigned_decimal s =
     (let ip = takeWhile (digit_in 10) s;
          r1 = dropWhile (digit_in 10) s;
          fp = (case r1 of [] \<Rightarrow> [] | c # r \<Rightarrow> if c = CHR ''.'' then takeWhile (digit_in 10) r else []);
          r2 = (case r1 of [] \<Rightarrow> [] | c # r \<Rightarrow> if c = CHR ''.'' then dropWhile (digit_in 10) r else r1)
      in if ip = [] \<and> fp = [] then None
         else (case exponent_part r2 of
                 None \<Rightarrow> None
               | Some e \<Rightarrow>
                   Some ((real (digits_value 10 ip) + real (digits_value 10 fp) / 10 ^ length fp)
                         * pow10 e)))"

definition prefixed :: "nat \<Rightarrow> string \<Rightarrow> jsnum" where
  "prefixed base ds =
     (if ds \<noteq> [] \<and> list_all (digit_in base) ds then fl (real (digits_value base ds)) else NaN)"

definition StringToNumber :: "string \<Rightarrow> jsnum" where
  "StringToNumber str =
     (let s = trim str
      in if s = [] then Fin 0
         else if s = ''Infinity'' \<or> s = ''+Infinity'' then PInf
         else if s = ''-Infinity'' then NInf
         else if take 2 s = ''0x'' \<or> take 2 s = ''0X'' then prefixed 16 (drop 2 s)
         else if take 2 s = ''0o'' \<or> take 2 s = ''0O'' then prefixed 8 (drop 2 s)
         else if take 2 s = ''0b'' \<or> take 2 s = ''0B'' then prefixed 2 (drop 2 s)
         else if hd s = CHR ''-''
         then (case unsigned_decimal (tl s) of None \<Rightarrow> NaN | Some v \<Rightarrow> fl (- v))
         else if hd s = CHR ''+''
         then (case unsigned_decimal (tl s) of None \<Rightarrow> NaN | Some v \<Rightarrow> fl v)
         else (case unsigned_decimal s of None \<Rightarrow> NaN | Some v \<Rightarrow> fl v))"

definition ToNumber :: "jsval \<Rightarrow> jsnum option" where
  "ToNumber v =
     (case v of
        Undefined \<Rightarrow> Some NaN
      | Null \<Rightarrow> Some (Fin 0)
      | Bool b \<Rightarrow> Some (Fin (if b then 1 else 0))
      | Num n \<Rightarrow> Some n
      | Str s \<Rightarrow> Some (StringToNumber s)
      | Obj p len \<Rightarrow> (case p of None \<Rightarrow> None | Some s \<Rightarrow> Some (StringToNumber s)))"

definition length_of :: "jsval \<Rightarrow> jsval" where
  "length_of v =
     (case v of
        Str s \<Rightarrow> Num (Fin (real (length s)))
      | Obj p len \<Rightarrow> len
      | _ \<Rightarrow> Undefined)"

definition ToPrimitive :: "jsval \<Rightarrow> jsval option" where
  "ToPrimitive v =
     (case v of
        Obj p len \<Rightarrow> (case p of None \<Rightarrow> None | Some s \<Rightarrow> Some (Str s))
      | _ \<Rightarrow> Some v)"

definition ToString :: "(jsnum \<Rightarrow> string) \<Rightarrow> jsval \<Rightarrow> string option" where
  "ToString print v =
     (case v of
        Undefined \<Rightarrow> Some ''undefined''
      | Null \<Rightarrow> Some ''null''
      | Bool b \<Rightarrow> Some (if b then ''true'' else ''false'')
      | Num n \<Rightarrow> Some (print n)
      | Str s \<Rightarrow> Some s
      | Obj p len \<Rightarrow> p)"

text \<open>An array of strings: it converts to its elements joined by commas.\<close>

fun join_comma :: "string list \<Rightarrow> string" where
  "join_comma [] = []"
| "join_comma [x] = x"
| "join_comma (x # y # r) = x @ '','' @ join_comma (y # r)"

definition array_of :: "string list \<Rightarrow> jsval" where
  "array_of xs = Obj (Some (join_comma xs)) (Num (Fin (real (length xs))))"

definition is_string :: "jsval \<Rightarrow> bool" where
  "is_string v = (case v of Str s \<Rightarrow> True | _ \<Rightarrow> False)"

definition js_plus :: "(jsnum \<Rightarrow> string) \<Rightarrow> jsval \<Rightarrow> jsval \<Rightarrow> jsval option" where
  "js_plus print a b =
     (case (ToPrimitive a, ToPrimitive b) of
        (Some x, Some y) \<Rightarrow>
          if is_string x \<or> is_string y
          then (case (ToString print x, ToString print y) of
                  (Some s, Some t) \<Rightarrow> Some (Str (s @ t))
                | _ \<Rightarrow> None)
          else (case (ToNumber x, ToNumber y) of
                  (Some m, Some n) \<Rightarrow> Some (Num (js_add m n))
                | _ \<Rightarrow> None)
      | _ \<Rightarrow> None)"

section \<open>Requests, responses and the state of the process\<close>

text \<open>
  A request carries its path, the headers the code reads (\<open>None\<close> is an absent header)
  and the two request-scoped fields the middleware writes, \<^verbatim>\<open>req.botScore\<close> and
  \<^verbatim>\<open>req.botSignals\<close>: \<open>None\<close> is \<^verbatim>\<open>undefined\<close>, the value on a request no
  middleware has written to. The score the middleware writes is a sum of the integers 60, 50
  and 40, which doubles hold exactly, so it is kept as a real; the score of the
  verification handler, which client input enters, is a \<open>jsnum\<close>. Times are the integer
  milliseconds of \<^verbatim>\<open>Date.now()\<close>.
\<close>

record request =
  req_path :: string
  user_agent :: "string option"
  x_forwarded_for :: "string option"
  x_real_ip :: "string option"
  req_ip :: "string option"
  remoteAddress :: "string option"
  botScore :: "real option"
  botSignals :: "string list option"

record fp_entry =
  ip :: "string option"
  count :: int
  firstSeen :: int
  lastSeen :: int

record server_state =
  rateLimitStore :: "string option \<rightharpoonup> int list"
  fingerprintStore :: "string \<rightharpoonup> fp_entry"

record verdict_json =
  allowed :: bool
  verdict :: string
  score :: jsnum
  signals :: "string list"
  redirectUrl :: "string option"

datatype body =
    Html string
  | DetectorPage string
  | Json_error string
  | Json_verdict verdict_json
  | Json_pow bool "string option"
  | Json_challenge string nat int
  | Json_status string
  | DetectorScript
  | Server_error

record response =
  status :: nat
  body :: body
  cookie :: "(string \<times> real) option"


text \<open>\<^verbatim>\<open>a || b\<close> on values that are a string or undefined: the empty string is falsy.\<close>

definition truthy :: "string option \<Rightarrow> bool" where
  "truthy a = (case a of None \<Rightarrow> False | Some s \<Rightarrow> s \<noteq> [])"

definition js_or :: "string option \<Rightarrow> string option \<Rightarrow> string option" where
  "js_or a b = (if truthy a then a else b)"

text \<open>\<^verbatim>\<open>x || 0\<close> on a number or undefined.\<close>

definition or_zero :: "real option \<Rightarrow> real" where
  "or_zero x = (case x of None \<Rightarrow> 0 | Some v \<Rightarrow> v)"

definition getClientIP :: "request \<Rightarrow> string option" where
  "getClientIP req =
     (let fallback = js_or (js_or (x_real_ip req) (req_ip req)) (remoteAddress req)
      in case x_forwarded_for req of
           None \<Rightarrow> fallback
         | Some forwarded \<Rightarrow>
             if forwarded \<noteq> [] then Some (trim (first_field forwarded)) else fallback)"

section \<open>The verdict ladder\<close>

definition isBot :: "jsnum \<Rightarrow> bool" where
  "isBot totalScore = js_ge totalScore (Fin 80)"

definition verdict_of :: "jsnum \<Rightarrow> string" where
  "verdict_of totalScore =
     (if js_ge totalScore (Fin 100) then ''bot''
      else if js_ge totalScore (Fin 80) then ''likely-bot''
      else if js_ge totalScore (Fin 50) then ''suspicious''
      else ''human'')"

section \<open>The bot detection middleware\<close>












section \<open>The verification endpoint\<close>

text \<open>
  The parsed JSON body of a request, as the body parser hands it over. No handler checks
  the type of a field, so a field the code computes with is any JSON value:
  \<^verbatim>\<open>clientScore\<close>, the four components of \<^verbatim>\<open>checks\<close>, the two of
  \<^verbatim>\<open>urlParams\<close>, \<^verbatim>\<open>challenge\<close>, \<^verbatim>\<open>nonce\<close> and \<^verbatim>\<open>timestamp\<close>. Of
  \<^verbatim>\<open>fingerprint\<close>, \<^verbatim>\<open>behaviors\<close>, \<^verbatim>\<open>checks\<close> and \<^verbatim>\<open>urlParams\<close>
  themselves the code tests the truth value only, before it reads their components or
  hashes them: \<open>None\<close> is every falsy value (an absent field, \<^verbatim>\<open>null\<close>,
  \<^verbatim>\<open>false\<close>, 0, the empty string), \<open>Some\<close> carries what a truthy one holds. The
  fingerprint is only hashed, so its type is left open.
\<close>

record behaviors =
  mouseMove :: bool
  click :: bool
  scroll :: bool
  keyboard :: bool
  touch :: bool

text \<open>The behaviours object as the constructor of the detector creates it.\<close>

definition no_behaviors :: behaviors where
  "no_behaviors = \<lparr>mouseMove = False, click = False, scroll = False, keyboard = False, touch = False\<rparr>"

record checks =
  cdp :: jsval
  webdriver :: jsval
  automationArtifacts :: jsval
  headlessSignals :: jsval

record urlParams =
  path :: jsval
  query :: jsval

record 'fp req_body =
  fingerprint :: "'fp option"
  behaviors :: "behaviors option"
  clientScore :: jsval
  checks :: "checks option"
  urlParams :: "urlParams option"
  challenge :: jsval
  nonce :: jsval
  timestamp :: jsval

text \<open>
  A URL object of the platform is given by what its getters return; \<open>href\<close> is also what
  \<^verbatim>\<open>toString()\<close> returns. What the platform's URL class does is not code of this
  repository, so the constructor (\<^verbatim>\<open>new URL(s)\<close>, \<open>None\<close> where it throws) and the three
  setters the handler assigns to are parameters: a setter returns the object after the
  assignment, which the platform may have normalised or refused.
\<close>

record url =
  href :: string
  protocol :: string
  hostname :: string
  port :: string
  pathname :: string
  search :: string
  hash :: string

text \<open>
  What the process is started with and the library functions it calls: the configured
  target, the MD5 hex digest of \<^verbatim>\<open>JSON.stringify(fingerprint)\<close>, the SHA-256 hex digest
  of a string, the decimal string the language prints for a number, and the URL class.
\<close>

record 'fp platform =
  REDIRECT_URL :: string
  fingerprint_md5 :: "'fp \<Rightarrow> string"
  sha256_hex :: "string \<Rightarrow> string"
  number_toString :: "jsnum \<Rightarrow> string"
  URL_parse :: "string \<Rightarrow> url option"
  set_hostname :: "url \<Rightarrow> string \<Rightarrow> url"
  set_pathname :: "url \<Rightarrow> string \<Rightarrow> url"
  set_search :: "url \<Rightarrow> string \<Rightarrow> url"

text \<open>
  What the handling of one request reads from its environment. For the middleware: its
  clock and whether its clean-up runs. For the verification handler: the first and the
  second value of \<^verbatim>\<open>Date.now()\<close> in the ledger step (an update reads one, an insertion
  two), whether the clean-up runs and the clock it reads. For the other handlers: their
  one reading of the clock. And the bytes \<^verbatim>\<open>crypto.randomBytes\<close> returns and the
  file name \<^verbatim>\<open>generateRandomFilename\<close> draws.
\<close>

record readings =
  mw_now :: int
  mw_sweep :: bool
  now1 :: int
  now2 :: int
  sweep :: bool
  now3 :: int
  handler_now :: int
  random :: "nat \<Rightarrow> 8 word"
  randomFilename :: string

definition hex_digit :: "nat \<Rightarrow> char" where
  "hex_digit n = ''0123456789abcdef'' ! (n mod 16)"

definition hex_byte :: "8 word \<Rightarrow> string" where
  "hex_byte b = [hex_digit (unat b div 16), hex_digit (unat b mod 16)]"

definition randomBytes :: "nat \<Rightarrow> (nat \<Rightarrow> 8 word) \<Rightarrow> 8 word list" where
  "randomBytes n src = map src [0..<n]"

definition generateRandomSubdomain :: "(nat \<Rightarrow> 8 word) \<Rightarrow> string" where
  "generateRandomSubdomain src = concat (map hex_byte (randomBytes 6 src))"

text \<open>
  The four conditions re-scored from the raw \<^verbatim>\<open>checks\<close> payload:
  \<^verbatim>\<open>checks && checks.cdp\<close>, \<^verbatim>\<open>checks && checks.webdriver\<close>,
  \<^verbatim>\<open>checks && checks.automationArtifacts && checks.automationArtifacts.length > 0\<close> and
  \<^verbatim>\<open>checks && checks.headlessSignals && checks.headlessSignals.length >= 2\<close>. A
  comparison converts the length to a number, which throws where the conversion does
  (\<open>None\<close>).
\<close>

definition cdp_hit :: "checks option \<Rightarrow> bool" where
  "cdp_hit c = (case c of None \<Rightarrow> False | Some k \<Rightarrow> truthy_val (cdp k))"

definition webdriver_hit :: "checks option \<Rightarrow> bool" where
  "webdriver_hit c = (case c of None \<Rightarrow> False | Some k \<Rightarrow> truthy_val (webdriver k))"

definition artifacts_hit :: "checks option \<Rightarrow> bool option" where
  "artifacts_hit c =
     (case c of
        None \<Rightarrow> Some False
      | Some k \<Rightarrow>
          if truthy_val (automationArtifacts k)
          then (case ToNumber (length_of (automationArtifacts k)) of
                  None \<Rightarrow> None
                | Some n \<Rightarrow> Some (js_gt n (Fin 0)))
          else Some False)"

definition headless_hit :: "checks option \<Rightarrow> bool option" where
  "headless_hit c =
     (case c of
        None \<Rightarrow> Some False
      | Some k \<Rightarrow>
          if truthy_val (headlessSignals k)
          then (case ToNumber (length_of (headlessSignals k)) of
                  None \<Rightarrow> None
                | Some n \<Rightarrow> Some (js_ge n (Fin 2)))
          else Some False)"

text \<open>\<^verbatim>\<open>if (cond) totalScore += k\<close>.\<close>

definition add_if :: "bool \<Rightarrow> real \<Rightarrow> jsnum \<Rightarrow> jsnum" where
  "add_if cond k totalScore = (if cond then js_add totalScore (Fin k) else totalScore)"

text \<open>
  The bonuses and the signals of the four conditions, in the order of the source, for the
  outcomes \<open>a\<close> and \<open>h\<close> of the two length tests.
\<close>

definition checks_score :: "checks option \<Rightarrow> bool \<Rightarrow> bool \<Rightarrow> jsnum \<Rightarrow> jsnum" where
  "checks_score c a h totalScore =
     add_if h 50
       (add_if a 65
          (add_if (webdriver_hit c) 70
             (add_if (cdp_hit c) 60 totalScore)))"

definition checks_signals :: "checks option \<Rightarrow> bool \<Rightarrow> bool \<Rightarrow> string list" where
  "checks_signals c a h =
     (if cdp_hit c then [''cdp-detected''] else [])
     @ (if webdriver_hit c then [''webdriver-detected''] else [])
     @ (if a then [''automation-artifacts''] else [])
     @ (if h then [''headless-browser''] else [])"

text \<open>
  The ledger step: an existing record is updated in place (count, last seen) and compared
  with the observing identity; a new hash gets a record owned by that identity. The second
  component says whether the reuse signal is raised.
\<close>

definition observe :: "int \<Rightarrow> int \<Rightarrow> string \<Rightarrow> string option \<Rightarrow> (string \<rightharpoonup> fp_entry) \<Rightarrow> (string \<rightharpoonup> fp_entry) \<times> bool" where
  "observe t1 t2 fpHash clientIP store =
     (case store fpHash of
        Some stored \<Rightarrow>
          (store(fpHash \<mapsto> stored\<lparr>count := count stored + 1, lastSeen := t1\<rparr>),
           ip stored \<noteq> clientIP)
      | None \<Rightarrow>
          (store(fpHash \<mapsto> \<lparr>ip = clientIP, count = 1, firstSeen = t1, lastSeen = t2\<rparr>), False))"

definition maxAge :: int where
  "maxAge = 24 * 60 * 60 * 1000"

definition cleanup_fingerprints :: "int \<Rightarrow> (string \<rightharpoonup> fp_entry) \<Rightarrow> (string \<rightharpoonup> fp_entry)" where
  "cleanup_fingerprints now store =
     (\<lambda>h. case store h of
             None \<Rightarrow> None
           | Some d \<Rightarrow> if now - lastSeen d > maxAge then None else Some d)"

text \<open>
  \<^verbatim>\<open>urlParams && urlParams.path\<close>: the component when the object is truthy and the
  component is. \<open>assign\<close> is the conditional assignment to a setter, which first converts
  the value to a string (\<open>None\<close>: the conversion throws).
\<close>

definition param :: "urlParams option \<Rightarrow> (urlParams \<Rightarrow> jsval) \<Rightarrow> jsval option" where
  "param up f =
     (case up of
        None \<Rightarrow> None
      | Some p \<Rightarrow> if truthy_val (f p) then Some (f p) else None)"

definition assign :: "'fp platform \<Rightarrow> (url \<Rightarrow> string \<Rightarrow> url) \<Rightarrow> jsval option \<Rightarrow> url \<Rightarrow> url option" where
  "assign P setter v u =
     (case v of
        None \<Rightarrow> Some u
      | Some x \<Rightarrow> (case ToString (number_toString P) x of
                     None \<Rightarrow> None
                   | Some s \<Rightarrow> Some (setter u s)))"

text \<open>
  The redirect target of a decision: \<open>None\<close> is the \<^verbatim>\<open>null\<close> of the response.
  Whatever throws inside the \<^verbatim>\<open>try\<close> block ends in the raw configured target.
\<close>

definition build_redirect :: "'fp platform \<Rightarrow> (nat \<Rightarrow> 8 word) \<Rightarrow> jsnum \<Rightarrow> urlParams option \<Rightarrow> string option" where
  "build_redirect P src totalScore up =
     (if \<not> isBot totalScore \<and> REDIRECT_URL P \<noteq> []
      then (case URL_parse P (REDIRECT_URL P) of
              None \<Rightarrow> Some (REDIRECT_URL P)
            | Some baseUrl \<Rightarrow>
                (let randomSubdomain = generateRandomSubdomain src;
                     u1 = set_hostname P baseUrl (randomSubdomain @ ''.'' @ hostname baseUrl)
                 in case assign P (set_pathname P) (param up path) u1 of
                      None \<Rightarrow> Some (REDIRECT_URL P)
                    | Some u2 \<Rightarrow>
                        (case assign P (set_search P) (param up query) u2 of
                           None \<Rightarrow> Some (REDIRECT_URL P)
                         | Some u3 \<Rightarrow> Some (href u3))))
      else None)"

text \<open>
  \<^verbatim>\<open>(clientScore || 0) * 0.5\<close>: \<open>None\<close> when converting the operand throws. The score
  before the ledger step is \<^verbatim>\<open>req.botScore || 0\<close>, plus that product, plus the bonuses
  in the order of the source, every sum rounded as the language rounds it; the ledger step
  adds 20 on reuse. \<open>None\<close>: one of the conversions throws.
\<close>

definition client_part :: "jsval \<Rightarrow> jsnum option" where
  "client_part c =
     (case ToNumber (if truthy_val c then c else Num (Fin 0)) of
        None \<Rightarrow> None
      | Some n \<Rightarrow> Some (js_mul n (Fin 0.5)))"

definition base_score :: "request \<Rightarrow> 'fp req_body \<Rightarrow> jsnum option" where
  "base_score req b =
     (case (client_part (clientScore b), artifacts_hit (checks b), headless_hit (checks b)) of
        (Some w, Some a, Some h) \<Rightarrow>
          Some (checks_score (checks b) a h (js_add (Fin (or_zero (botScore req))) w))
      | _ \<Rightarrow> None)"

definition body_signals :: "'fp req_body \<Rightarrow> string list" where
  "body_signals b =
     (case (artifacts_hit (checks b), headless_hit (checks b)) of
        (Some a, Some h) \<Rightarrow> checks_signals (checks b) a h
      | _ \<Rightarrow> [])"

definition total_score :: "request \<Rightarrow> 'fp req_body \<Rightarrow> bool \<Rightarrow> jsnum option" where
  "total_score req b reuse =
     (case base_score req b of None \<Rightarrow> None | Some s \<Rightarrow> Some (add_if reuse 20 s))"

text \<open>
  The handler. The product with the client score and the four conditions are computed
  before the ledger is touched, so where one of them throws the ledger is as it was and
  the framework answers 500. A score that is not-a-number or infinite leaves the handler as
  it is (the JSON of the response prints it as \<^verbatim>\<open>null\<close>).
\<close>

definition verify_human :: "'fp platform \<Rightarrow> readings \<Rightarrow> server_state \<Rightarrow> request \<Rightarrow> 'fp req_body \<Rightarrow> server_state \<times> response" where
  "verify_human P R st req b =
     (case (fingerprint b, behaviors b) of
        (Some fp, Some bh) \<Rightarrow>
          (let clientIP = getClientIP req;
               fpHash = fingerprint_md5 P fp;
               (store1, reuse) = observe (now1 R) (now2 R) fpHash clientIP (fingerprintStore st);
               store2 = (if sweep R then cleanup_fingerprints (now3 R) store1 else store1);
               sigs = (case botSignals req of None \<Rightarrow> [] | Some l \<Rightarrow> l) @ body_signals b
                        @ (if reuse then [''fingerprint-reuse''] else [])
           in case total_score req b reuse of
                None \<Rightarrow> (st, \<lparr>status = 500, body = Server_error, cookie = None\<rparr>)
              | Some totalScore \<Rightarrow>
                  (st\<lparr>fingerprintStore := store2\<rparr>,
                   \<lparr>status = 200,
                    body = Json_verdict
                      \<lparr>allowed = \<not> isBot totalScore,
                       verdict = verdict_of totalScore,
                       score = totalScore,
                       signals = sigs,
                       redirectUrl = build_redirect P (random R) totalScore (urlParams b)\<rparr>,
                    cookie = None\<rparr>))
      | _ \<Rightarrow> (st, \<lparr>status = 400, body = Json_error ''Missing required data'', cookie = None\<rparr>))"

section \<open>The proof-of-work endpoints\<close>

text \<open>
  \<^verbatim>\<open>createHash('sha256').update(challenge + nonce).digest('hex')\<close>: the digest of the
  sum when it is a string; \<open>None\<close> when the sum throws or is a number, which
  \<^verbatim>\<open>update\<close> refuses with a TypeError.
\<close>

definition pow_hash :: "'fp platform \<Rightarrow> jsval \<Rightarrow> jsval \<Rightarrow> string option" where
  "pow_hash P c n =
     (case js_plus (number_toString P) c n of
        Some (Str s) \<Rightarrow> Some (sha256_hex P s)
      | _ \<Rightarrow> None)"

text \<open>
  The handler: the presence test, the freshness test (\<^verbatim>\<open>now - timestamp > 30000\<close>,
  which converts the timestamp to a number), then the digest. An error thrown is answered
  by the framework with 500.
\<close>

definition verify_pow :: "'fp platform \<Rightarrow> int \<Rightarrow> 'fp req_body \<Rightarrow> response" where
  "verify_pow P now b =
     (if \<not> truthy_val (challenge b) \<or> nonce b = Undefined \<or> \<not> truthy_val (timestamp b)
      then \<lparr>status = 400, body = Json_error ''Missing required data'', cookie = None\<rparr>
      else (case ToNumber (timestamp b) of
              None \<Rightarrow> \<lparr>status = 500, body = Server_error, cookie = None\<rparr>
            | Some t \<Rightarrow>
                if js_gt (js_sub (Fin (real_of_int now)) t) (Fin 30000)
                then \<lparr>status = 200, body = Json_pow False (Some ''Challenge expired''),
                      cookie = None\<rparr>
                else (case pow_hash P (challenge b) (nonce b) of
                        None \<Rightarrow> \<lparr>status = 500, body = Server_error, cookie = None\<rparr>
                      | Some digest \<Rightarrow>
                          \<lparr>status = 200, body = Json_pow (startsWith digest ''0000'') None,
                           cookie = None\<rparr>)))"

section \<open>The application: middleware, then the routes in the order they are registered\<close>











definition reuse_of :: "'fp platform \<Rightarrow> readings \<Rightarrow> server_state \<Rightarrow> request \<Rightarrow> 'fp \<Rightarrow> bool" where
  "reuse_of P R st req fp =
     snd (observe (now1 R) (now2 R) (fingerprint_md5 P fp) (getClientIP req) (fingerprintStore st))"




definition fresh :: "int set \<Rightarrow> string option \<Rightarrow> (string option \<rightharpoonup> int list) \<Rightarrow> nat" where
  "fresh T k store = (case store k of None \<Rightarrow> 0 | Some rs \<Rightarrow> length (filter (\<lambda>t. t \<in> T) rs))"

text \<open>
  The fingerprint ledger over time. \<open>ledger_step\<close> is what a verification of the
  fingerprint \<open>fp\<close> does to the ledger (the ledger step, then the clean-up when it runs);
  \<open>swept\<close> says that the clean-up of a run deletes a record last seen at \<open>seen\<close>;
  \<open>run_verifications\<close> runs the handler over a sequence of requests, each with its
  readings; \<open>clock_ok\<close> says that the clock never goes back over such a sequence,
  starting at \<open>T\<close>; \<open>ledger_ok\<close> is the invariant of the records, with the clock as
  an upper bound of the times they hold.
\<close>

definition swept :: "readings \<Rightarrow> int \<Rightarrow> bool" where
  "swept R seen = (sweep R \<and> now3 R - seen > maxAge)"

definition ledger_step :: "'fp platform \<Rightarrow> readings \<Rightarrow> request \<Rightarrow> 'fp \<Rightarrow> (string \<rightharpoonup> fp_entry) \<Rightarrow> (string \<rightharpoonup> fp_entry)" where
  "ledger_step P R req fp store =
     (let store1 = fst (observe (now1 R) (now2 R) (fingerprint_md5 P fp) (getClientIP req) store)
      in if sweep R then cleanup_fingerprints (now3 R) store1 else store1)"

fun run_verifications :: "'fp platform \<Rightarrow> (readings \<times> request \<times> 'fp req_body) list \<Rightarrow> server_state \<Rightarrow> server_state" where
  "run_verifications P [] st = st"
| "run_verifications P ((R, req, b) # evs) st = run_verifications P evs (fst (verify_human P R st req b))"

fun clock_ok :: "int \<Rightarrow> (readings \<times> request \<times> 'fp req_body) list \<Rightarrow> bool" where
  "clock_ok T [] = True"
| "clock_ok T ((R, req, b) # evs) =
     (T \<le> now1 R \<and> now1 R \<le> now2 R \<and> now2 R \<le> now3 R \<and> clock_ok (now3 R) evs)"

definition ledger_ok :: "int \<Rightarrow> (string \<rightharpoonup> fp_entry) \<Rightarrow> bool" where
  "ledger_ok T store =
     (\<forall>h e. store h = Some e \<longrightarrow> count e \<ge> 1 \<and> firstSeen e \<le> lastSeen e \<and> lastSeen e \<le> T)"

section \<open>The client detector\<close>

text \<open>
  The detector of au0cki7gbr.js runs in the visitor's browser. \<open>browser\<close> is what its
  checks read there. A value the code reads a property of is optional where the read can
  throw: \<open>nav_plugins\<close> and \<open>nav_mimeTypes\<close> are the lengths of
  \<^verbatim>\<open>navigator.plugins\<close> and \<^verbatim>\<open>navigator.mimeTypes\<close> (\<open>None\<close>: the object is
  undefined), \<open>documentElement\<close> the presence of the \<^verbatim>\<open>selenium\<close> and \<^verbatim>\<open>driver\<close>
  attributes (\<open>None\<close>: there is no document element), \<open>context2d\<close> the 2D context of
  a new canvas (\<open>None\<close>: \<^verbatim>\<open>getContext('2d')\<close> returns null). A probe of the WebGL or
  audio subsystem throws, finds nothing or gives its data. \<open>permission_mismatch\<close> says
  that the permissions probe, which \<^verbatim>\<open>detectHeadless\<close> starts without awaiting it, has
  found a mismatch by the time the score is read. A check returns the detector it leaves
  behind, or the error it throws.
\<close>

datatype js_error = TypeError string

record config =
  cdpWeight :: real
  behaviorWeight :: real
  fingerprintWeight :: real
  timingWeight :: real
  navigatorWeight :: real
  threshold :: real
  behaviorTimeout :: real

definition default_config :: config where
  "default_config =
     \<lparr>cdpWeight = 50, behaviorWeight = 40, fingerprintWeight = 30, timingWeight = 25,
      navigatorWeight = 20, threshold = 70, behaviorTimeout = 3000\<rparr>"

record canvas =
  dataURL :: "string option"
  measureText :: "string \<Rightarrow> real"

record webgl_fp =
  gl_vendor :: string
  gl_renderer :: string
  gl_version :: string
  shadingLanguageVersion :: string
  extensionCount :: nat

record audio_fp =
  sampleRate :: real
  audio_state :: string
  baseLatency :: "real option"
  outputLatency :: "real option"

record screen_fp =
  width :: real
  height :: real
  availWidth :: real
  availHeight :: real
  colorDepth :: real
  pixelDepth :: real
  devicePixelRatio :: real
  orientation :: "string option"

record browser_fp =
  fp_userAgent :: string
  fp_platform :: string
  fp_language :: "string option"
  fp_languages :: "string list option"
  cookieEnabled :: bool
  doNotTrack :: "string option"
  fp_hardwareConcurrency :: "real option"
  fp_deviceMemory :: "real option"
  maxTouchPoints :: real
  fp_vendor :: string
  vendorSub :: string
  productSub :: string
  timezone :: string
  timezoneOffset :: real

datatype 'a probe = Throws | Absent | Present 'a

record browser =
  cdp_attached :: bool
  nav_webdriver :: "bool option"
  nav_userAgent :: string
  window_chrome :: bool
  nav_plugins :: "nat option"
  nav_mimeTypes :: "nat option"
  nav_languages :: "string list option"
  window_phantom :: bool
  permission_mismatch :: bool
  nav_platform :: string
  nav_language :: "string option"
  nav_hardwareConcurrency :: "real option"
  nav_deviceMemory :: "real option"
  nav_vendor :: string
  selenium_recorder :: bool
  documentElement :: "(bool \<times> bool) option"
  cdc_marker :: bool
  playwright_marker :: bool
  nightmare_marker :: bool
  context2d :: "canvas option"
  webgl :: "webgl_fp probe"
  audio :: "audio_fp probe"
  screen :: screen_fp
  nav_rest :: browser_fp

record client_checks =
  ck_cdp :: "bool option"
  ck_webdriver :: "bool option"
  ck_headlessSignals :: "string list option"
  ck_permissionInconsistency :: "bool option"
  ck_navigatorIssues :: "string list option"
  ck_automationArtifacts :: "string list option"
  ck_behaviorScore :: "real option"

record client_fingerprint =
  fp_canvas :: "string option"
  fp_webgl :: "webgl_fp option"
  fp_audio :: "audio_fp option"
  fp_fonts :: "string list"
  fp_screen :: screen_fp
  fp_browser :: browser_fp

record detector =
  d_config :: config
  d_score :: real
  d_checks :: client_checks
  d_behaviors :: behaviors
  d_fingerprint :: "client_fingerprint option"

record detection =
  r_isBot :: bool
  r_score :: real
  r_checks :: client_checks
  r_behaviors :: behaviors
  r_fingerprint :: "client_fingerprint option"

definition new_detector :: "config \<Rightarrow> detector" where
  "new_detector cfg =
     \<lparr>d_config = cfg, d_score = 0,
      d_checks = \<lparr>ck_cdp = None, ck_webdriver = None, ck_headlessSignals = None,
                  ck_permissionInconsistency = None, ck_navigatorIssues = None,
                  ck_automationArtifacts = None, ck_behaviorScore = None\<rparr>,
      d_behaviors = no_behaviors, d_fingerprint = None\<rparr>"

definition detectCDP :: "browser \<Rightarrow> detector \<Rightarrow> js_error + detector" where
  "detectCDP env d =
     (let detected = cdp_attached env;
          d1 = d\<lparr>d_checks := (d_checks d)\<lparr>ck_cdp := Some detected\<rparr>\<rparr>
      in Inr (if detected then d1\<lparr>d_score := d_score d1 + cdpWeight (d_config d1)\<rparr> else d1))"

definition detectWebDriver :: "browser \<Rightarrow> detector \<Rightarrow> js_error + detector" where
  "detectWebDriver env d =
     (let w = (nav_webdriver env = Some True);
          d1 = d\<lparr>d_checks := (d_checks d)\<lparr>ck_webdriver := Some w\<rparr>\<rparr>
      in Inr (if w then d1\<lparr>d_score := d_score d1 + 45\<rparr> else d1))"

definition checkPermissionsAsync :: "browser \<Rightarrow> detector \<Rightarrow> detector" where
  "checkPermissionsAsync env d =
     (if permission_mismatch env
      then d\<lparr>d_checks := (d_checks d)\<lparr>ck_permissionInconsistency := Some True\<rparr>,
             d_score := d_score d + 20\<rparr>
      else d)"

definition detectHeadless :: "browser \<Rightarrow> detector \<Rightarrow> js_error + detector" where
  "detectHeadless env d =
     (let s1 = (if regex_test_i [''HeadlessChrome''] (nav_userAgent env) then [''headless-ua''] else []);
          s2 = s1 @ (if \<not> window_chrome env \<and> regex_test_i [''Chrome''] (nav_userAgent env)
                     then [''missing-chrome-object''] else [])
      in case nav_plugins env of
           None \<Rightarrow> Inl (TypeError ''navigator.plugins.length'')
         | Some plugins \<Rightarrow>
             (let s3 = s2 @ (if plugins = 0 then [''no-plugins''] else [])
              in case nav_mimeTypes env of
                   None \<Rightarrow> Inl (TypeError ''navigator.mimeTypes.length'')
                 | Some mimeTypes \<Rightarrow>
                     (let s4 = s3 @ (if mimeTypes = 0 then [''no-mimetypes''] else []);
                          s5 = s4 @ (if nav_languages env = None \<or> nav_languages env = Some []
                                     then [''no-languages''] else []);
                          signals = s5 @ (if window_phantom env then [''phantomjs''] else []);
                          d1 = checkPermissionsAsync env d;
                          d2 = d1\<lparr>d_checks := (d_checks d1)\<lparr>ck_headlessSignals := Some signals\<rparr>\<rparr>
                      in Inr (if length signals > 0
                              then d2\<lparr>d_score := d_score d2 + min (real (length signals) * 15) 45\<rparr>
                              else d2))))"

definition checkNavigatorInconsistencies :: "browser \<Rightarrow> detector \<Rightarrow> js_error + detector" where
  "checkNavigatorInconsistencies env d =
     (let ua = nav_userAgent env;
          uaPlatform = (if regex_test [''Win''] ua then ''Win32''
                        else if regex_test [''Mac''] ua then ''MacIntel''
                        else if regex_test [''Linux''] ua then ''Linux x86_64'' else []);
          i1 = (if uaPlatform \<noteq> [] \<and> nav_platform env \<noteq> uaPlatform then [''platform-mismatch''] else []);
          i2 = i1 @ (case (nav_language env, nav_languages env) of
                       (Some l, Some ls) \<Rightarrow> if l \<noteq> [] \<and> l \<notin> set ls then [''language-mismatch''] else []
                     | _ \<Rightarrow> []);
          i3 = i2 @ (case nav_hardwareConcurrency env of
                       None \<Rightarrow> []
                     | Some n \<Rightarrow> if n > 32 \<or> n = 0 then [''suspicious-cpu''] else []);
          i4 = i3 @ (case nav_deviceMemory env of
                       None \<Rightarrow> []
                     | Some m \<Rightarrow> if m \<noteq> 0 \<and> (m > 32 \<or> m < 0.25) then [''suspicious-memory''] else []);
          expectedVendor = (if regex_test [''Chrome''] ua then ''Google Inc.''
                            else if regex_test [''Safari''] ua \<and> \<not> regex_test [''Chrome''] ua
                            then ''Apple Computer, Inc.'' else []);
          issues = i4 @ (if expectedVendor \<noteq> [] \<and> nav_vendor env \<noteq> expectedVendor
                         then [''vendor-mismatch''] else []);
          d1 = d\<lparr>d_checks := (d_checks d)\<lparr>ck_navigatorIssues := Some issues\<rparr>\<rparr>
      in Inr (if length issues > 0
              then d1\<lparr>d_score := d_score d1 + min (real (length issues) * 10) (navigatorWeight (d_config d1))\<rparr>
              else d1))"

definition checkAutomationArtifacts :: "browser \<Rightarrow> detector \<Rightarrow> js_error + detector" where
  "checkAutomationArtifacts env d =
     (case (if selenium_recorder env then Inr True
            else case documentElement env of
                   None \<Rightarrow> Inl (TypeError ''document.documentElement.getAttribute'')
                 | Some (selenium, driver) \<Rightarrow> Inr (selenium \<or> driver)) of
        Inl e \<Rightarrow> Inl e
      | Inr sel \<Rightarrow>
          (let a1 = (if sel then [''selenium''] else []);
               a2 = a1 @ (if cdc_marker env then [''chrome-automation''] else []);
               a3 = a2 @ (if nav_webdriver env = None \<and> regex_test [''HeadlessChrome''] (nav_userAgent env)
                          then [''puppeteer''] else []);
               a4 = a3 @ (if playwright_marker env then [''playwright''] else []);
               artifacts = a4 @ (if nightmare_marker env then [''nightmare''] else []);
               d1 = d\<lparr>d_checks := (d_checks d)\<lparr>ck_automationArtifacts := Some artifacts\<rparr>\<rparr>
           in Inr (if length artifacts > 0 then d1\<lparr>d_score := d_score d1 + 50\<rparr> else d1)))"

definition digit36 :: "nat \<Rightarrow> char" where
  "digit36 n = ''0123456789abcdefghijklmnopqrstuvwxyz'' ! (n mod 36)"

function toString36 :: "nat \<Rightarrow> string" where
  "toString36 n = (if n < 36 then [digit36 n] else toString36 (n div 36) @ [digit36 n])"
  by pat_completeness auto
termination
  by (relation "measure id") auto

definition simpleHash :: "string \<Rightarrow> string" where
  "simpleHash str =
     (let h = fold (\<lambda>c hash. (push_bit 5 hash - hash) + of_nat (of_char c)) str (0 :: 32 word)
      in if sint h < 0 then CHR ''-'' # toString36 (nat (- sint h)) else toString36 (nat (sint h)))"

definition getCanvasFingerprint :: "browser \<Rightarrow> string option" where
  "getCanvasFingerprint env =
     (case context2d env of
        None \<Rightarrow> None
      | Some ctx \<Rightarrow> (case dataURL ctx of None \<Rightarrow> None | Some u \<Rightarrow> Some (simpleHash u)))"

definition getWebGLFingerprint :: "browser \<Rightarrow> webgl_fp option" where
  "getWebGLFingerprint env = (case webgl env of Present g \<Rightarrow> Some g | _ \<Rightarrow> None)"

definition getAudioFingerprint :: "browser \<Rightarrow> audio_fp option" where
  "getAudioFingerprint env = (case audio env of Present a \<Rightarrow> Some a | _ \<Rightarrow> None)"

definition baseFonts :: "string list" where
  "baseFonts = [''monospace'', ''sans-serif'', ''serif'']"

definition testFonts :: "string list" where
  "testFonts = [''Arial'', ''Verdana'', ''Times New Roman'', ''Courier New'', ''Georgia'',
                ''Palatino'', ''Garamond'', ''Comic Sans MS'', ''Trebuchet MS'', ''Impact'']"

definition getFontFingerprint :: "browser \<Rightarrow> js_error + string list" where
  "getFontFingerprint env =
     (case context2d env of
        None \<Rightarrow> Inl (TypeError ''ctx.font'')
      | Some ctx \<Rightarrow>
          Inr (filter (\<lambda>font. list_ex (\<lambda>baseFont.
                          measureText ctx (''72px '' @ font @ '', '' @ baseFont)
                          \<noteq> measureText ctx (''72px '' @ baseFont)) baseFonts)
                 testFonts))"

definition generateFingerprint :: "browser \<Rightarrow> detector \<Rightarrow> js_error + detector" where
  "generateFingerprint env d =
     (case getFontFingerprint env of
        Inl e \<Rightarrow> Inl e
      | Inr fonts \<Rightarrow>
          (let fp = \<lparr>fp_canvas = getCanvasFingerprint env, fp_webgl = getWebGLFingerprint env,
                     fp_audio = getAudioFingerprint env, fp_fonts = fonts,
                     fp_screen = screen env, fp_browser = nav_rest env\<rparr>;
               d1 = d\<lparr>d_fingerprint := Some fp\<rparr>
           in Inr (if fp_canvas fp = None \<or> fp_webgl fp = None
                   then d1\<lparr>d_score := d_score d1 + 15\<rparr> else d1)))"

definition calculateScore :: "detector \<Rightarrow> detector" where
  "calculateScore d = d\<lparr>d_checks := (d_checks d)\<lparr>ck_behaviorScore := Some 0\<rparr>\<rparr>"

definition and_then :: "js_error + 'a \<Rightarrow> ('a \<Rightarrow> js_error + 'b) \<Rightarrow> js_error + 'b" where
  "and_then r f = (case r of Inl e \<Rightarrow> Inl e | Inr x \<Rightarrow> f x)"

definition detect :: "config \<Rightarrow> browser \<Rightarrow> js_error + detection" where
  "detect cfg env =
     and_then (detectCDP env (new_detector cfg)) (\<lambda>d1.
     and_then (detectWebDriver env d1) (\<lambda>d2.
     and_then (detectHeadless env d2) (\<lambda>d3.
     and_then (checkNavigatorInconsistencies env d3) (\<lambda>d4.
     and_then (checkAutomationArtifacts env d4) (\<lambda>d5.
     and_then (generateFingerprint env d5) (\<lambda>d6.
       (let d = calculateScore d6
        in Inr \<lparr>r_isBot = (d_score d \<ge> threshold (d_config d)), r_score = d_score d,
                r_checks = d_checks d, r_behaviors = d_behaviors d,
                r_fingerprint = d_fingerprint d\<rparr>)))))))"

definition score_of :: "js_error + detection \<Rightarrow> real option" where
  "score_of res = (case res of Inl e \<Rightarrow> None | Inr r \<Rightarrow> Some (r_score r))"

definition immediate_checks :: "config \<Rightarrow> browser \<Rightarrow> js_error + detector" where
  "immediate_checks cfg env =
     and_then (detectCDP env (new_detector cfg)) (\<lambda>d1.
     and_then (detectWebDriver env d1) (\<lambda>d2.
     and_then (detectHeadless env d2) (\<lambda>d3.
     and_then (checkNavigatorInconsistencies env d3) (\<lambda>d4.
       checkAutomationArtifacts env d4))))"

definition penalty :: "client_fingerprint \<Rightarrow> real" where
  "penalty f = (if fp_canvas f = None \<or> fp_webgl f = None then 15 else 0)"

section \<open>Concrete inputs\<close>

text \<open>
  A platform whose target is \<^verbatim>\<open>https://example.com\<close>, with stand-ins for the digests
  (the fingerprint is hashed to itself, one string has a digest with four leading zeros),
  for the printing of numbers (right for 42) and for the URL class. The stand-in of the URL
  class knows two targets, one with a domain name and one with an IPv6 address as its host,
  and does to them what the platform does: a host name that holds a character forbidden in
  a host (such as a bracket or a colon) is refused and the URL stays as it was, a path is
  given its leading slash and a query its question mark.
\<close>

definition rebuild :: "url \<Rightarrow> url" where
  "rebuild u =
     u\<lparr>href := protocol u @ ''//'' @ hostname u @ (if port u = [] then [] else '':'' @ port u)
              @ pathname u @ search u @ hash u\<rparr>"

definition forbidden_host :: "char \<Rightarrow> bool" where
  "forbidden_host c = (c \<in> set '' #/:<>?@[]^|'' \<or> c = CHR 0x5C)"

definition sample_parse :: "string \<Rightarrow> url option" where
  "sample_parse s =
     (if s = ''https://example.com''
      then Some \<lparr>href = ''https://example.com/'', protocol = ''https:'', hostname = ''example.com'',
                 port = [], pathname = ''/'', search = [], hash = []\<rparr>
      else if s = ''https://[2001:db8::1]''
      then Some \<lparr>href = ''https://[2001:db8::1]/'', protocol = ''https:'',
                 hostname = ''[2001:db8::1]'', port = [], pathname = ''/'', search = [], hash = []\<rparr>
      else None)"

definition sample_set_hostname :: "url \<Rightarrow> string \<Rightarrow> url" where
  "sample_set_hostname u h = (if list_ex forbidden_host h then u else rebuild (u\<lparr>hostname := h\<rparr>))"

definition sample_set_pathname :: "url \<Rightarrow> string \<Rightarrow> url" where
  "sample_set_pathname u p = rebuild (u\<lparr>pathname := (if startsWith p ''/'' then p else ''/'' @ p)\<rparr>)"

definition sample_set_search :: "url \<Rightarrow> string \<Rightarrow> url" where
  "sample_set_search u q = rebuild (u\<lparr>search := (if startsWith q ''?'' then q else ''?'' @ q)\<rparr>)"

definition sample_platform :: "string platform" where
  "sample_platform =
     \<lparr>REDIRECT_URL = ''https://example.com'',
      fingerprint_md5 = (\<lambda>fp. fp),
      sha256_hex = (\<lambda>s. if s = ''token42'' then ''0000ab'' else ''000ab0'' @ s),
      number_toString = (\<lambda>n. if n = Fin 42 then ''42'' else ''7''),
      URL_parse = sample_parse,
      set_hostname = sample_set_hostname,
      set_pathname = sample_set_pathname,
      set_search = sample_set_search\<rparr>"



definition sample_random :: "nat \<Rightarrow> 8 word" where
  "sample_random i = of_nat (i * 37 + 171)"

definition sample_readings :: readings where
  "sample_readings =
     \<lparr>mw_now = 1000, mw_sweep = True, now1 = 1000, now2 = 1001, sweep = True, now3 = 1002,
      handler_now = 1000, random = sample_random, randomFilename = ''abc''\<rparr>"

definition sample_request :: "string \<Rightarrow> string \<Rightarrow> request" where
  "sample_request p ua =
     \<lparr>req_path = p, user_agent = Some ua, x_forwarded_for = Some ''10.0.0.1, 10.0.0.2'',
      x_real_ip = None, req_ip = Some ''10.0.0.2'', remoteAddress = None,
      botScore = None, botSignals = None\<rparr>"


definition empty_state :: server_state where
  "empty_state = \<lparr>rateLimitStore = Map.empty, fingerprintStore = Map.empty\<rparr>"

definition sample_body :: "string req_body" where
  "sample_body =
     \<lparr>fingerprint = Some ''{canvas:1}'',
      behaviors = Some no_behaviors,
      clientScore = Num (Fin 30),
      checks = Some \<lparr>cdp = Bool False, webdriver = Bool True, automationArtifacts = array_of [],
                     headlessSignals = array_of [''no-plugins'']\<rparr>,
      urlParams = Some \<lparr>path = Str ''/foo'', query = Str []\<rparr>,
      challenge = Undefined, nonce = Undefined, timestamp = Undefined\<rparr>"

definition sample_verdict :: verdict_json where
  "sample_verdict =
     \<lparr>allowed = False, verdict = ''likely-bot'', score = Fin 85,
      signals = [''webdriver-detected''], redirectUrl = None\<rparr>"

definition human_body :: "string req_body" where
  "human_body =
     \<lparr>fingerprint = Some ''{canvas:1}'',
      behaviors = Some no_behaviors,
      clientScore = Num (Fin 0),
      checks = Some \<lparr>cdp = Bool False, webdriver = Bool False, automationArtifacts = array_of [],
                     headlessSignals = array_of []\<rparr>,
      urlParams = Some \<lparr>path = Str ''/foo'', query = Str []\<rparr>,
      challenge = Undefined, nonce = Undefined, timestamp = Undefined\<rparr>"

definition human_verdict :: verdict_json where
  "human_verdict =
     \<lparr>allowed = True, verdict = ''human'', score = Fin 0, signals = [],
      redirectUrl = Some ''https://abd0f51a3f64.example.com/foo''\<rparr>"

text \<open>
  Bodies whose client score is a string that is no number, and the double next below 20
  (the number the text 19.999999999999996 denotes).
\<close>

definition nan_body :: "string req_body" where
  "nan_body = human_body\<lparr>clientScore := Str ''x''\<rparr>"

definition nan_verdict :: verdict_json where
  "nan_verdict =
     \<lparr>allowed = True, verdict = ''human'', score = NaN, signals = [],
      redirectUrl = Some ''https://abd0f51a3f64.example.com/foo''\<rparr>"

definition rounding_body :: "string req_body" where
  "rounding_body = sample_body\<lparr>clientScore := Num (Fin (20 - 1 / 2 ^ 48))\<rparr>"

definition rounding_verdict :: verdict_json where
  "rounding_verdict =
     \<lparr>allowed = False, verdict = ''likely-bot'', score = Fin 80,
      signals = [''webdriver-detected''], redirectUrl = None\<rparr>"

definition pow_body :: "jsval \<Rightarrow> jsval \<Rightarrow> jsval \<Rightarrow> string req_body" where
  "pow_body c n t =
     \<lparr>fingerprint = None, behaviors = None, clientScore = Undefined, checks = None,
      urlParams = None, challenge = c, nonce = n, timestamp = t\<rparr>"



definition later_readings :: readings where
  "later_readings = sample_readings\<lparr>now1 := 2000, now2 := 2000, now3 := 2001\<rparr>"

text \<open>Readings in which the clock steps back between the two readings of an insertion.\<close>

definition backward_readings :: readings where
  "backward_readings = sample_readings\<lparr>now1 := 1000, now2 := 999\<rparr>"

definition other_request :: request where
  "other_request = (sample_request ''/api/verify-human'' ''Mozilla/5.0'')\<lparr>x_forwarded_for := Some ''10.0.0.9''\<rparr>"


definition reuse_verdict :: verdict_json where
  "reuse_verdict =
     \<lparr>allowed = True, verdict = ''human'', score = Fin 20, signals = [''fingerprint-reuse''],
      redirectUrl = Some ''https://abd0f51a3f64.example.com/foo''\<rparr>"

definition earlier_visit :: "(readings \<times> request \<times> string req_body) list" where
  "earlier_visit =
     [(sample_readings\<lparr>now1 := 100, now2 := 100, now3 := 101\<rparr>,
       sample_request ''/api/verify-human'' ''Mozilla/5.0'',
       sample_body\<lparr>fingerprint := Some ''{canvas:0}''\<rparr>)]"

definition sample_canvas :: canvas where
  "sample_canvas =
     \<lparr>dataURL = Some ''ab'',
      measureText = (\<lambda>f. if f = ''72px Arial, serif'' then 640 else 600)\<rparr>"

definition sample_browser :: browser where
  "sample_browser =
     \<lparr>cdp_attached = False, nav_webdriver = Some False,
      nav_userAgent = ''Mozilla/5.0 (X11; Linux x86_64) Chrome/120.0 Safari/537.36'',
      window_chrome = True, nav_plugins = Some 5, nav_mimeTypes = Some 2,
      nav_languages = Some [''en-US'', ''en''], window_phantom = False,
      permission_mismatch = False, nav_platform = ''Linux x86_64'',
      nav_language = Some ''en-US'', nav_hardwareConcurrency = Some 8,
      nav_deviceMemory = Some 8, nav_vendor = ''Google Inc.'',
      selenium_recorder = False, documentElement = Some (False, False),
      cdc_marker = False, playwright_marker = False, nightmare_marker = False,
      context2d = Some sample_canvas,
      webgl = Present \<lparr>gl_vendor = ''Google Inc.'', gl_renderer = ''ANGLE'', gl_version = ''WebGL 1.0'',
                        shadingLanguageVersion = ''WebGL GLSL ES 1.0'', extensionCount = 30\<rparr>,
      audio = Present \<lparr>sampleRate = 48000, audio_state = ''suspended'', baseLatency = Some 0.01,
                        outputLatency = Some 0\<rparr>,
      screen = \<lparr>width = 1920, height = 1080, availWidth = 1920, availHeight = 1040,
                colorDepth = 24, pixelDepth = 24, devicePixelRatio = 1,
                orientation = Some ''landscape-primary''\<rparr>,
      nav_rest = \<lparr>fp_userAgent = ''Mozilla/5.0 (X11; Linux x86_64) Chrome/120.0 Safari/537.36'',
                  fp_platform = ''Linux x86_64'', fp_language = Some ''en-US'',
                  fp_languages = Some [''en-US'', ''en''], cookieEnabled = True, doNotTrack = None,
                  fp_hardwareConcurrency = Some 8, fp_deviceMemory = Some 8, maxTouchPoints = 0,
                  fp_vendor = ''Google Inc.'', vendorSub = [], productSub = ''20030107'',
                  timezone = ''Europe/Paris'', timezoneOffset = -60\<rparr>\<rparr>"

section \<open>Evaluation of the arithmetic on concrete numbers\<close>

lemma bitlen_eval:
  "bitlen 0 = 0" "bitlen 1 = 1" "bitlen (Suc 0) = 1"
  "bitlen (numeral k) = Suc (bitlen (numeral k div 2))"
  by (simp_all add: bitlen.simps)

lemmas num_eval = fl_def expo_def bitlen_eval pow2_def round_even_def

lemmas str_eval = StringToNumber_def trim_def white_space_def unsigned_decimal_def
  exponent_part_def digit_in_def digit_of_def digits_value_def pow10_def prefixed_def

lemma fl_zero: "fl 0 = Fin 0"
  by (simp add: fl_def)

text \<open>
  A multiple of one half below \<open>2 ^ 20\<close> is a double, so sums of such numbers are exact.
\<close>

lemma bitlen_le: "n < 2 ^ k \<Longrightarrow> bitlen n \<le> k"
proof (induction k arbitrary: n)
  case 0
  then show ?case by (simp add: bitlen.simps)
next
  case (Suc k)
  show ?case
  proof (cases "n = 0")
    case True
    then show ?thesis by (simp add: bitlen.simps)
  next
    case False
    from Suc.prems have "n div 2 < 2 ^ k" by auto
    then have "bitlen (n div 2) \<le> k" by (rule Suc.IH)
    with False show ?thesis by (subst bitlen.simps) simp
  qed
qed

lemma bitlen_pos: "0 < n \<Longrightarrow> 1 \<le> bitlen n"
  by (subst bitlen.simps) simp

lemma round_even_int: "round_even (of_int m) = m"
  by (simp add: round_even_def)

lemma fl_exact:
  assumes "x > 0" and "max (expo \<bar>x\<bar>) (- 1022) = e"
    and "of_int (round_even (\<bar>x\<bar> / pow2 (e - 52))) * pow2 (e - 52) = x" and "x < 2 ^ 1024"
  shows "fl x = Fin x"
  unfolding fl_def Let_def assms(2) assms(3) using assms(1,4) by simp

lemma fl_half:
  assumes "n < 2 ^ 21"
  shows "fl (real n / 2) = Fin (real n / 2)"
proof -
  consider "n = 0" | "n = 1" | "n \<ge> 2" by linarith
  then show ?thesis
  proof cases
    case 1
    then show ?thesis by (simp add: fl_def)
  next
    case 2
    then show ?thesis by (simp add: num_eval)
  next
    case 3
    let ?x = "real n / 2"
    have x1: "?x \<ge> 1" using 3 by simp
    have "\<lfloor>real n / real 2\<rfloor> = int (n div 2)" by (rule floor_divide_of_nat_eq)
    then have fl: "nat \<lfloor>?x\<rfloor> = n div 2" by simp
    have pos: "0 < n div 2" using 3 by simp
    have lt: "n div 2 < 2 ^ 20" using assms by simp
    define k where "k = bitlen (n div 2)"
    have k: "1 \<le> k" "k \<le> 20" unfolding k_def using bitlen_pos [OF pos] bitlen_le [OF lt] by simp_all
    have e: "expo \<bar>?x\<bar> = int k - 1" using x1 by (simp add: expo_def fl k_def)
    have m: "max (expo \<bar>?x\<bar>) (- 1022) = int k - 1" unfolding e using k by simp
    define j where "j = 52 - k"
    have q: "pow2 (int k - 1 - 52) = 1 / (2 * 2 ^ j)"
    proof -
      have "nat (- (int k - 1 - 52)) = Suc j" using k by (simp add: j_def)
      with k show ?thesis by (simp add: pow2_def)
    qed
    have d: "\<bar>?x\<bar> / pow2 (int k - 1 - 52) = of_int (int n * 2 ^ j)" unfolding q by simp
    have y: "of_int (round_even (\<bar>?x\<bar> / pow2 (int k - 1 - 52))) * pow2 (int k - 1 - 52) = ?x"
      unfolding d round_even_int unfolding q by simp
    have small: "?x < 2 ^ 1024"
    proof -
      have "?x < 2 ^ 21" using assms by simp
      also have "\<dots> < (2::real) ^ 1024" by simp
      finally show ?thesis .
    qed
    have nz: "?x > 0" using 3 by simp
    from nz m y small show ?thesis by (rule fl_exact)
  qed
qed

text \<open>So is a whole number of magnitude below \<open>2 ^ 53\<close>.\<close>

lemma fl_nat:
  assumes "n < 2 ^ 53"
  shows "fl (real n) = Fin (real n)"
proof (cases "n = 0")
  case True
  then show ?thesis by (simp add: fl_def)
next
  case False
  let ?x = "real n"
  have x1: "?x \<ge> 1" using False by simp
  have fl: "nat \<lfloor>?x\<rfloor> = n" by simp
  have pos: "0 < n" using False by simp
  define k where "k = bitlen n"
  have k: "1 \<le> k" "k \<le> 53" unfolding k_def using bitlen_pos [OF pos] bitlen_le [OF assms] by simp_all
  have e: "expo \<bar>?x\<bar> = int k - 1" using x1 by (simp add: expo_def k_def)
  have m: "max (expo \<bar>?x\<bar>) (- 1022) = int k - 1" unfolding e using k by simp
  define j where "j = 53 - k"
  have q: "pow2 (int k - 1 - 52) = 1 / 2 ^ j"
  proof (cases "k = 53")
    case True
    then show ?thesis by (simp add: pow2_def j_def)
  next
    case False
    with k have "nat (- (int k - 1 - 52)) = j" "\<not> int k - 1 - 52 \<ge> 0" by (simp_all add: j_def)
    then show ?thesis by (simp add: pow2_def)
  qed
  have d: "\<bar>?x\<bar> / pow2 (int k - 1 - 52) = of_int (int n * 2 ^ j)" unfolding q by simp
  have y: "of_int (round_even (\<bar>?x\<bar> / pow2 (int k - 1 - 52))) * pow2 (int k - 1 - 52) = ?x"
    unfolding d round_even_int unfolding q by simp
  have small: "?x < 2 ^ 1024"
  proof -
    have "?x < 2 ^ 53" using assms by (metis of_nat_less_iff of_nat_numeral of_nat_power)
    also have "\<dots> < (2::real) ^ 1024" by simp
    finally show ?thesis .
  qed
  have nz: "?x > 0" using False by simp
  from nz m y small show ?thesis by (rule fl_exact)
qed

lemma fl_minus: "fl (- x) = js_neg (fl x)"
  by (simp add: fl_def js_neg_def Let_def)

lemma fl_int:
  assumes "\<bar>m\<bar> < 2 ^ 53"
  shows "fl (real_of_int m) = Fin (real_of_int m)"
proof (cases "m \<ge> 0")
  case True
  with assms have "nat m < 2 ^ 53" by (simp add: nat_less_iff)
  from fl_nat [OF this] True show ?thesis by simp
next
  case False
  with assms have "nat (- m) < 2 ^ 53" by (simp add: nat_less_iff)
  from fl_nat [OF this] False have "fl (real_of_int (- m)) = Fin (real_of_int (- m))" by simp
  then have "fl (- real_of_int m) = Fin (- real_of_int m)" by simp
  then show ?thesis unfolding fl_minus by (cases "fl (real_of_int m)") (simp_all add: js_neg_def)
qed

lemma startsWith_take: "startsWith s p \<longleftrightarrow> take (length p) s = p"
  by (induction s p rule: startsWith.induct) auto

lemma js_lt_iff: "s \<noteq> NaN \<Longrightarrow> js_lt s (Fin k) \<longleftrightarrow> \<not> js_ge s (Fin k)"
  by (cases s) (auto simp: js_lt_def js_gt_def)

lemma js_ge_trans: "js_ge s (Fin k) \<Longrightarrow> j \<le> k \<Longrightarrow> js_ge s (Fin j)"
  by (cases s) auto

lemma sample_ip: "getClientIP (sample_request p ua) = Some ''10.0.0.1''"
  by (simp add: sample_request_def getClientIP_def js_or_def truthy_def trim_def
      first_field_def white_space_def)

section \<open>Properties of the verification handler\<close>

lemma verify_human_missing:
  "fingerprint b = None \<or> behaviors b = None \<Longrightarrow>
   verify_human P R st req b =
     (st, \<lparr>status = 400, body = Json_error ''Missing required data'', cookie = None\<rparr>)"
  by (auto simp: verify_human_def split: option.splits)

lemma verify_human_throws:
  assumes "fingerprint b = Some fp" and "behaviors b = Some bh"
    and "total_score req b (reuse_of P R st req fp) = None"
  shows "verify_human P R st req b = (st, \<lparr>status = 500, body = Server_error, cookie = None\<rparr>)"
  using assms by (simp add: verify_human_def reuse_of_def Let_def split_beta)

lemma verify_human_present:
  assumes "fingerprint b = Some fp" and "behaviors b = Some bh"
    and "total_score req b (reuse_of P R st req fp) = Some s"
  shows "verify_human P R st req b =
       (st\<lparr>fingerprintStore := ledger_step P R req fp (fingerprintStore st)\<rparr>,
        \<lparr>status = 200,
         body = Json_verdict
           \<lparr>allowed = \<not> isBot s, verdict = verdict_of s, score = s,
            signals = (case botSignals req of None \<Rightarrow> [] | Some l \<Rightarrow> l) @ body_signals b
                      @ (if reuse_of P R st req fp then [''fingerprint-reuse''] else []),
            redirectUrl = build_redirect P (random R) s (urlParams b)\<rparr>,
         cookie = None\<rparr>)"
  using assms by (simp add: verify_human_def reuse_of_def ledger_step_def Let_def split_beta)

lemma verify_human_verdict:
  assumes "verify_human P R st req b = (st', r)" and "body r = Json_verdict v"
  obtains fp bh where "fingerprint b = Some fp" and "behaviors b = Some bh"
    and "allowed v = (\<not> isBot (score v))" and "verdict v = verdict_of (score v)"
    and "total_score req b (reuse_of P R st req fp) = Some (score v)"
    and "redirectUrl v = build_redirect P (random R) (score v) (urlParams b)"
    and "signals v = (case botSignals req of None \<Rightarrow> [] | Some l \<Rightarrow> l) @ body_signals b
                     @ (if reuse_of P R st req fp then [''fingerprint-reuse''] else [])"
proof -
  have "fingerprint b \<noteq> None \<and> behaviors b \<noteq> None"
  proof (rule ccontr)
    assume "\<not> ?thesis"
    then have "fingerprint b = None \<or> behaviors b = None" by simp
    from verify_human_missing [OF this, of P R st req] assms show False by simp
  qed
  then obtain fp bh where p: "fingerprint b = Some fp" "behaviors b = Some bh" by auto
  have "total_score req b (reuse_of P R st req fp) \<noteq> None"
  proof
    assume "total_score req b (reuse_of P R st req fp) = None"
    from verify_human_throws [OF p this] assms show False by simp
  qed
  then obtain s where s: "total_score req b (reuse_of P R st req fp) = Some s" by auto
  from verify_human_present [OF p s] assms
  have "allowed v = (\<not> isBot (score v))" "verdict v = verdict_of (score v)"
    "s = score v"
    "redirectUrl v = build_redirect P (random R) (score v) (urlParams b)"
    "signals v = (case botSignals req of None \<Rightarrow> [] | Some l \<Rightarrow> l) @ body_signals b
                 @ (if reuse_of P R st req fp then [''fingerprint-reuse''] else [])"
    by auto
  with p s that show thesis by blast
qed

lemma sample_score:
  "total_score (sample_request p ua) sample_body False = Some (Fin 85)"
  by (simp add: total_score_def base_score_def client_part_def sample_body_def sample_request_def
      truthy_val_def ToNumber_def artifacts_hit_def headless_hit_def array_of_def length_of_def
      js_gt_def checks_score_def add_if_def cdp_hit_def webdriver_hit_def or_zero_def num_eval)

lemma sample_run:
  "verify_human sample_platform sample_readings empty_state
      (sample_request ''/api/verify-human'' ''Mozilla/5.0'') sample_body
   = (\<lparr>rateLimitStore = Map.empty,
       fingerprintStore = cleanup_fingerprints 1002
          [''{canvas:1}'' \<mapsto> \<lparr>ip = Some ''10.0.0.1'', count = 1, firstSeen = 1000, lastSeen = 1001\<rparr>]\<rparr>,
      \<lparr>status = 200, body = Json_verdict sample_verdict, cookie = None\<rparr>)"
proof -
  let ?req = "sample_request ''/api/verify-human'' ''Mozilla/5.0''"
  have fp: "fingerprint sample_body = Some ''{canvas:1}''" "behaviors sample_body = Some no_behaviors"
    by (simp_all add: sample_body_def)
  have ru: "reuse_of sample_platform sample_readings empty_state ?req ''{canvas:1}'' = False"
    by (simp add: reuse_of_def observe_def empty_state_def sample_platform_def)
  have sc: "total_score ?req sample_body
              (reuse_of sample_platform sample_readings empty_state ?req ''{canvas:1}'') = Some (Fin 85)"
    unfolding ru by (rule sample_score)
  have sg: "body_signals sample_body = [''webdriver-detected'']"
    by (simp add: body_signals_def sample_body_def artifacts_hit_def headless_hit_def
        truthy_val_def array_of_def length_of_def ToNumber_def js_gt_def checks_signals_def
        cdp_hit_def webdriver_hit_def)
  have bs: "botSignals ?req = None" by (simp add: sample_request_def)
  have bot: "isBot (Fin 85)" "verdict_of (Fin 85) = ''likely-bot''"
    by (simp_all add: isBot_def verdict_of_def)
  have red: "build_redirect sample_platform (random sample_readings) (Fin 85) (urlParams sample_body) = None"
    by (simp add: build_redirect_def bot)
  have led: "ledger_step sample_platform sample_readings ?req ''{canvas:1}'' (fingerprintStore empty_state)
      = cleanup_fingerprints 1002
          [''{canvas:1}'' \<mapsto> \<lparr>ip = Some ''10.0.0.1'', count = 1, firstSeen = 1000, lastSeen = 1001\<rparr>]"
    by (simp add: ledger_step_def sample_ip observe_def empty_state_def sample_platform_def
        sample_readings_def)
  show ?thesis
    unfolding verify_human_present [OF fp sc] led red sg bs ru
    by (simp add: bot sample_verdict_def empty_state_def)
qed

lemma sample_label: "generateRandomSubdomain sample_random = ''abd0f51a3f64''"
  by (simp add: generateRandomSubdomain_def randomBytes_def sample_random_def hex_byte_def
      hex_digit_def upt_rec)

lemma sample_redirect:
  "\<not> isBot s \<Longrightarrow>
   build_redirect sample_platform sample_random s (Some \<lparr>path = Str ''/foo'', query = Str []\<rparr>)
     = Some ''https://abd0f51a3f64.example.com/foo''"
  by (simp add: build_redirect_def sample_label sample_platform_def sample_parse_def
      sample_set_hostname_def sample_set_pathname_def forbidden_host_def
      rebuild_def assign_def param_def truthy_val_def ToString_def)

lemma human_signals: "body_signals (human_body\<lparr>clientScore := c\<rparr>) = []"
  by (simp add: body_signals_def human_body_def artifacts_hit_def headless_hit_def
      truthy_val_def array_of_def length_of_def ToNumber_def js_gt_def checks_signals_def
      cdp_hit_def webdriver_hit_def)

lemma human_ledger:
  "ledger_step sample_platform sample_readings (sample_request p ua) ''{canvas:1}''
     (fingerprintStore empty_state)
   = cleanup_fingerprints 1002
       [''{canvas:1}'' \<mapsto> \<lparr>ip = Some ''10.0.0.1'', count = 1, firstSeen = 1000, lastSeen = 1001\<rparr>]"
  by (simp add: ledger_step_def sample_ip observe_def empty_state_def sample_platform_def
      sample_readings_def)

lemma nan_score: "total_score (sample_request p ua) nan_body False = Some NaN"
  by (simp add: total_score_def base_score_def client_part_def nan_body_def human_body_def
      sample_request_def truthy_val_def ToNumber_def artifacts_hit_def headless_hit_def
      array_of_def length_of_def js_gt_def checks_score_def add_if_def cdp_hit_def
      webdriver_hit_def or_zero_def str_eval)

lemma nan_run:
  "verify_human sample_platform sample_readings empty_state
      (sample_request ''/api/verify-human'' ''Mozilla/5.0'') nan_body
   = (\<lparr>rateLimitStore = Map.empty,
       fingerprintStore = cleanup_fingerprints 1002
          [''{canvas:1}'' \<mapsto> \<lparr>ip = Some ''10.0.0.1'', count = 1, firstSeen = 1000, lastSeen = 1001\<rparr>]\<rparr>,
      \<lparr>status = 200, body = Json_verdict nan_verdict, cookie = None\<rparr>)"
proof -
  let ?req = "sample_request ''/api/verify-human'' ''Mozilla/5.0''"
  have fp: "fingerprint nan_body = Some ''{canvas:1}''" "behaviors nan_body = Some no_behaviors"
    by (simp_all add: nan_body_def human_body_def)
  have ru: "reuse_of sample_platform sample_readings empty_state ?req ''{canvas:1}'' = False"
    by (simp add: reuse_of_def observe_def empty_state_def sample_platform_def)
  have sc: "total_score ?req nan_body
              (reuse_of sample_platform sample_readings empty_state ?req ''{canvas:1}'') = Some NaN"
    unfolding ru by (rule nan_score)
  have sg: "body_signals nan_body = []"
    unfolding nan_body_def by (rule human_signals)
  have bs: "botSignals ?req = None" by (simp add: sample_request_def)
  have bot: "\<not> isBot NaN" "verdict_of NaN = ''human''"
    by (simp_all add: isBot_def verdict_of_def)
  have red: "build_redirect sample_platform (random sample_readings) NaN (urlParams nan_body)
      = Some ''https://abd0f51a3f64.example.com/foo''"
    using sample_redirect [OF bot(1)] by (simp add: sample_readings_def nan_body_def human_body_def)
  show ?thesis
    unfolding verify_human_present [OF fp sc] human_ledger red sg bs ru
    by (simp add: bot nan_verdict_def empty_state_def)
qed

text \<open>
  C1. Whatever the handler of \<^verbatim>\<open>/api/verify-human\<close> answers with a verdict, the verdict
  is \<open>bot\<close> exactly when the score is at least 100, \<open>likely-bot\<close> exactly from 80 up to
  100, \<open>suspicious\<close> exactly from 50 up to 80 and \<open>human\<close> exactly below 50, and
  \<open>allowed\<close> is true exactly when the score is below 80. The last two fail for a score
  that is not a number: a client score \<^verbatim>\<open>"x"\<close> makes the score NaN, which is neither
  below 50 nor below 80, and the handler answers \<open>human\<close>, allowed, with the target.
\<close>

theorem verdict_ladder_counterexample:
  "snd (verify_human sample_platform sample_readings empty_state
          (sample_request ''/api/verify-human'' ''Mozilla/5.0'') nan_body)
   = \<lparr>status = 200, body = Json_verdict nan_verdict, cookie = None\<rparr>
   \<and> clientScore nan_body = Str ''x''
   \<and> verdict nan_verdict = ''human'' \<and> allowed nan_verdict
   \<and> redirectUrl nan_verdict = Some ''https://abd0f51a3f64.example.com/foo''
   \<and> score nan_verdict = NaN
   \<and> \<not> js_lt (score nan_verdict) (Fin 50) \<and> \<not> js_lt (score nan_verdict) (Fin 80)"
  using nan_run by (simp add: nan_verdict_def nan_body_def js_lt_def js_gt_def)

text \<open>
  C1, amended. Whatever the handler answers with a verdict, the verdict is \<open>bot\<close>
  exactly when the score is at least 100, \<open>likely-bot\<close> exactly from 80 up to 100 and
  \<open>suspicious\<close> exactly from 50 up to 80; it is \<open>human\<close> exactly when the score is
  not at least 50, and \<open>allowed\<close> is true exactly when the score is not at least 80. For
  a score that is a number this is below 50 and below 80; a score that is NaN is
  \<open>human\<close> and allowed. In particular 99 is not \<open>bot\<close>, 100 is, 79 is allowed and 80
  is not.
\<close>

theorem verdict_ladder:
  assumes "verify_human P R st req b = (st', r)" and "body r = Json_verdict v"
  shows "(verdict v = ''bot'' \<longleftrightarrow> js_ge (score v) (Fin 100))
       \<and> (verdict v = ''likely-bot'' \<longleftrightarrow> js_ge (score v) (Fin 80) \<and> js_lt (score v) (Fin 100))
       \<and> (verdict v = ''suspicious'' \<longleftrightarrow> js_ge (score v) (Fin 50) \<and> js_lt (score v) (Fin 80))
       \<and> (verdict v = ''human'' \<longleftrightarrow> \<not> js_ge (score v) (Fin 50))
       \<and> (allowed v \<longleftrightarrow> \<not> js_ge (score v) (Fin 80))
       \<and> (score v \<noteq> NaN \<longrightarrow> (verdict v = ''human'' \<longleftrightarrow> js_lt (score v) (Fin 50))
                              \<and> (allowed v \<longleftrightarrow> js_lt (score v) (Fin 80)))
       \<and> (score v = NaN \<longrightarrow> verdict v = ''human'' \<and> allowed v)
       \<and> verdict_of (Fin 99) \<noteq> ''bot'' \<and> verdict_of (Fin 100) = ''bot''
       \<and> \<not> isBot (Fin 79) \<and> isBot (Fin 80)"
proof -
  from assms obtain fp bh where
    v: "verdict v = verdict_of (score v)" "allowed v = (\<not> isBot (score v))"
    by (rule verify_human_verdict)
  have fixed: "verdict_of (Fin 99) \<noteq> ''bot'' \<and> verdict_of (Fin 100) = ''bot''
       \<and> \<not> isBot (Fin 79) \<and> isBot (Fin 80)"
    by (simp add: verdict_of_def isBot_def)
  have ladder: "(verdict_of s = ''bot'' \<longleftrightarrow> js_ge s (Fin 100))
       \<and> (verdict_of s = ''likely-bot'' \<longleftrightarrow> js_ge s (Fin 80) \<and> js_lt s (Fin 100))
       \<and> (verdict_of s = ''suspicious'' \<longleftrightarrow> js_ge s (Fin 50) \<and> js_lt s (Fin 80))
       \<and> (verdict_of s = ''human'' \<longleftrightarrow> \<not> js_ge s (Fin 50))
       \<and> (\<not> isBot s \<longleftrightarrow> \<not> js_ge s (Fin 80))
       \<and> (s \<noteq> NaN \<longrightarrow> (verdict_of s = ''human'' \<longleftrightarrow> js_lt s (Fin 50))
                       \<and> (\<not> isBot s \<longleftrightarrow> js_lt s (Fin 80)))
       \<and> (s = NaN \<longrightarrow> verdict_of s = ''human'' \<and> \<not> isBot s)" for s
    by (cases s) (auto simp: verdict_of_def isBot_def js_lt_def js_gt_def)
  from ladder [of "score v"] fixed show ?thesis unfolding v by blast
qed

theorem verdict_ladder_witness:
  "verify_human sample_platform sample_readings empty_state
      (sample_request ''/api/verify-human'' ''Mozilla/5.0'') sample_body
   = (\<lparr>rateLimitStore = Map.empty,
       fingerprintStore = cleanup_fingerprints 1002
          [''{canvas:1}'' \<mapsto> \<lparr>ip = Some ''10.0.0.1'', count = 1, firstSeen = 1000, lastSeen = 1001\<rparr>]\<rparr>,
      \<lparr>status = 200, body = Json_verdict sample_verdict, cookie = None\<rparr>)
   \<and> verdict sample_verdict = ''likely-bot''
   \<and> js_ge (score sample_verdict) (Fin 80) \<and> js_lt (score sample_verdict) (Fin 100)
   \<and> \<not> allowed sample_verdict"
  using verdict_ladder [OF sample_run, of sample_verdict] sample_run
  by (simp add: sample_verdict_def)

lemma add_if_half:
  assumes "n + 2 * k < 2 ^ 21"
  shows "add_if cnd (real k) (Fin (real n / 2)) = Fin (real (n + (if cnd then 2 * k else 0)) / 2)"
proof (cases cnd)
  case False
  then show ?thesis by (simp add: add_if_def)
next
  case True
  have eq: "real n / 2 + real k = real (n + 2 * k) / 2" by simp
  have "js_add (Fin (real n / 2)) (Fin (real k)) = Fin (real (n + 2 * k) / 2)"
    unfolding js_add.simps eq by (rule fl_half [OF assms])
  with True show ?thesis by (simp only: add_if_def if_True)
qed

lemma client_half:
  assumes "j < 2 ^ 21"
  shows "js_mul (Fin (real j)) (Fin 0.5) = Fin (real j / 2)"
proof -
  have eq: "real j * 0.5 = real j / 2" by simp
  show ?thesis unfolding js_mul.simps eq by (rule fl_half [OF assms])
qed

lemma sum_half:
  assumes "2 * i + j < 2 ^ 21"
  shows "js_add (Fin (real i)) (Fin (real j / 2)) = Fin (real (2 * i + j) / 2)"
proof -
  have eq: "real i + real j / 2 = real (2 * i + j) / 2" by simp
  show ?thesis unfolding js_add.simps eq by (rule fl_half [OF assms])
qed

lemma exact_score:
  assumes "i < 1000" and "j < 1000"
  shows "add_if e 20 (add_if d 50 (add_if c 65 (add_if b 70 (add_if a 60
           (js_add (Fin (real i)) (js_mul (Fin (real j)) (Fin 0.5)))))))
         = Fin (real i + real j * 0.5 + (if a then 60 else 0) + (if b then 70 else 0)
                + (if c then 65 else 0) + (if d then 50 else 0) + (if e then 20 else 0))"
proof -
  define n0 where "n0 = 2 * i + j"
  define n1 where "n1 = n0 + (if a then 2 * 60 else 0)"
  define n2 where "n2 = n1 + (if b then 2 * 70 else 0)"
  define n3 where "n3 = n2 + (if c then 2 * 65 else 0)"
  define n4 where "n4 = n3 + (if d then 2 * 50 else 0)"
  define n5 where "n5 = n4 + (if e then 2 * 20 else 0)"
  have b0: "n0 < 3000" using assms by (simp add: n0_def)
  then have b1: "n1 < 3200" by (simp add: n1_def)
  then have b2: "n2 < 3400" by (simp add: n2_def)
  then have b3: "n3 < 3600" by (simp add: n3_def)
  then have b4: "n4 < 3800" by (simp add: n4_def)
  have j: "j < 2 ^ 21" and ij: "2 * i + j < 2 ^ 21" using assms by simp_all
  have s0: "js_add (Fin (real i)) (js_mul (Fin (real j)) (Fin 0.5)) = Fin (real n0 / 2)"
    unfolding n0_def client_half [OF j] by (rule sum_half [OF ij])
  have s1: "add_if a 60 (Fin (real n0 / 2)) = Fin (real n1 / 2)"
    unfolding n1_def using add_if_half [of n0 60 a] b0 by simp
  have s2: "add_if b 70 (Fin (real n1 / 2)) = Fin (real n2 / 2)"
    unfolding n2_def using add_if_half [of n1 70 b] b1 by simp
  have s3: "add_if c 65 (Fin (real n2 / 2)) = Fin (real n3 / 2)"
    unfolding n3_def using add_if_half [of n2 65 c] b2 by simp
  have s4: "add_if d 50 (Fin (real n3 / 2)) = Fin (real n4 / 2)"
    unfolding n4_def using add_if_half [of n3 50 d] b3 by simp
  have s5: "add_if e 20 (Fin (real n4 / 2)) = Fin (real n5 / 2)"
    unfolding n5_def using add_if_half [of n4 20 e] b4 by simp
  have "real n5 / 2 = real i + real j * 0.5 + (if a then 60 else 0) + (if b then 70 else 0)
                + (if c then 65 else 0) + (if d then 50 else 0) + (if e then 20 else 0)"
    by (simp add: n5_def n4_def n3_def n2_def n1_def n0_def)
  then show ?thesis unfolding s0 s1 s2 s3 s4 s5 by simp
qed

lemma reuse_of_iff:
  "reuse_of P R st req fp \<longleftrightarrow>
     (\<exists>e. fingerprintStore st (fingerprint_md5 P fp) = Some e \<and> ip e \<noteq> getClientIP req)"
  by (simp add: reuse_of_def observe_def split: option.splits)

lemma cdp_hit_iff: "cdp_hit c \<longleftrightarrow> (\<exists>k. c = Some k \<and> truthy_val (cdp k))"
  by (simp add: cdp_hit_def split: option.splits)

lemma webdriver_hit_iff: "webdriver_hit c \<longleftrightarrow> (\<exists>k. c = Some k \<and> truthy_val (webdriver k))"
  by (simp add: webdriver_hit_def split: option.splits)

lemma array_length: "ToNumber (length_of (array_of xs)) = Some (Fin (real (length xs)))"
  by (simp add: array_of_def length_of_def ToNumber_def)

lemma array_truthy: "truthy_val (array_of xs)"
  by (simp add: array_of_def truthy_val_def)

lemma artifacts_array:
  "automationArtifacts k = array_of xs \<Longrightarrow> artifacts_hit (Some k) = Some (xs \<noteq> [])"
  by (simp add: artifacts_hit_def array_truthy array_length js_gt_def)

lemma headless_array:
  "headlessSignals k = array_of xs \<Longrightarrow> headless_hit (Some k) = Some (length xs \<ge> 2)"
  by (simp add: headless_hit_def array_truthy array_length)

lemma total_score_Some:
  assumes "total_score req b reuse = Some s"
  obtains c a h where
    "ToNumber (if truthy_val (clientScore b) then clientScore b else Num (Fin 0)) = Some c"
    and "artifacts_hit (checks b) = Some a" and "headless_hit (checks b) = Some h"
    and "s = add_if reuse 20 (add_if h 50 (add_if a 65 (add_if (webdriver_hit (checks b)) 70
               (add_if (cdp_hit (checks b)) 60
                  (js_add (Fin (or_zero (botScore req))) (js_mul c (Fin 0.5)))))))"
  using assms
  by (auto simp: total_score_def base_score_def client_part_def checks_score_def
      split: option.splits)

lemma rounding_score:
  "total_score (sample_request p ua) rounding_body False = Some (Fin 80)"
  by (simp add: total_score_def base_score_def client_part_def rounding_body_def sample_body_def
      sample_request_def truthy_val_def ToNumber_def artifacts_hit_def headless_hit_def
      array_of_def length_of_def js_gt_def checks_score_def add_if_def cdp_hit_def
      webdriver_hit_def or_zero_def num_eval)

lemma rounding_run:
  "verify_human sample_platform sample_readings empty_state
      (sample_request ''/api/verify-human'' ''Mozilla/5.0'') rounding_body
   = (\<lparr>rateLimitStore = Map.empty,
       fingerprintStore = cleanup_fingerprints 1002
          [''{canvas:1}'' \<mapsto> \<lparr>ip = Some ''10.0.0.1'', count = 1, firstSeen = 1000, lastSeen = 1001\<rparr>]\<rparr>,
      \<lparr>status = 200, body = Json_verdict rounding_verdict, cookie = None\<rparr>)"
proof -
  let ?req = "sample_request ''/api/verify-human'' ''Mozilla/5.0''"
  have fp: "fingerprint rounding_body = Some ''{canvas:1}''"
    "behaviors rounding_body = Some no_behaviors"
    by (simp_all add: rounding_body_def sample_body_def)
  have ru: "reuse_of sample_platform sample_readings empty_state ?req ''{canvas:1}'' = False"
    by (simp add: reuse_of_def observe_def empty_state_def sample_platform_def)
  have sc: "total_score ?req rounding_body
              (reuse_of sample_platform sample_readings empty_state ?req ''{canvas:1}'') = Some (Fin 80)"
    unfolding ru by (rule rounding_score)
  have sg: "body_signals rounding_body = [''webdriver-detected'']"
    by (simp add: body_signals_def rounding_body_def sample_body_def artifacts_hit_def
        headless_hit_def truthy_val_def array_of_def length_of_def ToNumber_def js_gt_def
        checks_signals_def cdp_hit_def webdriver_hit_def)
  have bs: "botSignals ?req = None" by (simp add: sample_request_def)
  have bot: "isBot (Fin 80)" "verdict_of (Fin 80) = ''likely-bot''"
    by (simp_all add: isBot_def verdict_of_def)
  have red: "build_redirect sample_platform (random sample_readings) (Fin 80)
               (urlParams rounding_body) = None"
    by (simp add: build_redirect_def bot)
  show ?thesis
    unfolding verify_human_present [OF fp sc] human_ledger red sg bs ru
    by (simp add: bot rounding_verdict_def empty_state_def)
qed

text \<open>
  C2. The score the handler reports is the server-side score of the request plus half the
  client score plus the bonuses re-scored from the raw \<^verbatim>\<open>checks\<close> payload plus 20 on
  fingerprint reuse. As an equation between numbers this fails, because every sum is
  rounded to a double: with the client score 19.999999999999996 (the double next below 20),
  \<open>webdriver\<close> true and a server-side score of 0 the handler reports exactly 80 and
  answers \<open>likely-bot\<close>, not allowed, whereas the sum in the reals is below 80.
\<close>

theorem final_score_counterexample:
  "snd (verify_human sample_platform sample_readings empty_state
          (sample_request ''/api/verify-human'' ''Mozilla/5.0'') rounding_body)
   = \<lparr>status = 200, body = Json_verdict rounding_verdict, cookie = None\<rparr>
   \<and> clientScore rounding_body = Num (Fin (20 - 1 / 2 ^ 48))
   \<and> fl (20 - 1 / 2 ^ 48) = Fin (20 - 1 / 2 ^ 48)
   \<and> botScore (sample_request ''/api/verify-human'' ''Mozilla/5.0'') = None
   \<and> score rounding_verdict = Fin 80
   \<and> verdict rounding_verdict = ''likely-bot'' \<and> \<not> allowed rounding_verdict
   \<and> (0 :: real) + (20 - 1 / 2 ^ 48) * 0.5 + 70 < 80"
  using rounding_run
  by (simp add: rounding_verdict_def rounding_body_def sample_request_def num_eval)

text \<open>
  C2, amended. The score the handler reports is computed in the arithmetic of doubles, in
  the order of the source: \<^verbatim>\<open>req.botScore || 0\<close>, plus the number
  \<^verbatim>\<open>clientScore || 0\<close> converts to times 0.5, plus 60 when \<^verbatim>\<open>checks.cdp\<close> is truthy,
  plus 70 when \<^verbatim>\<open>checks.webdriver\<close> is truthy, plus 65 when
  \<^verbatim>\<open>checks.automationArtifacts\<close> is truthy with a length above 0 (for an array: when it
  is not empty), plus 50 when \<^verbatim>\<open>checks.headlessSignals\<close> is truthy with a length of at
  least 2, plus 20 when the ledger holds the fingerprint under another identity. When the
  server-side score and the client score are whole numbers below 1000, no sum is rounded
  and the score is that sum in the reals. With \<open>webdriver\<close> truthy and both scores 0 the
  score is at least 70 and the verdict at least \<open>suspicious\<close>.
\<close>

theorem final_score:
  assumes "verify_human P R st req b = (st', r)" and "body r = Json_verdict v"
  shows "\<exists>fp c a h. fingerprint b = Some fp
     \<and> ToNumber (if truthy_val (clientScore b) then clientScore b else Num (Fin 0)) = Some c
     \<and> artifacts_hit (checks b) = Some a \<and> headless_hit (checks b) = Some h
     \<and> (\<forall>k xs. checks b = Some k \<and> automationArtifacts k = array_of xs \<longrightarrow> a = (xs \<noteq> []))
     \<and> (\<forall>k xs. checks b = Some k \<and> headlessSignals k = array_of xs \<longrightarrow> h = (length xs \<ge> 2))
     \<and> score v =
         add_if (\<exists>e. fingerprintStore st (fingerprint_md5 P fp) = Some e \<and> ip e \<noteq> getClientIP req) 20
           (add_if h 50
              (add_if a 65
                 (add_if (\<exists>k. checks b = Some k \<and> truthy_val (webdriver k)) 70
                    (add_if (\<exists>k. checks b = Some k \<and> truthy_val (cdp k)) 60
                       (js_add (Fin (or_zero (botScore req))) (js_mul c (Fin 0.5)))))))
     \<and> (\<forall>i j. or_zero (botScore req) = real i \<and> c = Fin (real j) \<and> i < 1000 \<and> j < 1000
          \<longrightarrow> score v =
                Fin (real i + real j * 0.5
                     + (if \<exists>k. checks b = Some k \<and> truthy_val (cdp k) then 60 else 0)
                     + (if \<exists>k. checks b = Some k \<and> truthy_val (webdriver k) then 70 else 0)
                     + (if a then 65 else 0) + (if h then 50 else 0)
                     + (if \<exists>e. fingerprintStore st (fingerprint_md5 P fp) = Some e
                              \<and> ip e \<noteq> getClientIP req
                        then 20 else 0)))
     \<and> ((\<exists>k. checks b = Some k \<and> truthy_val (webdriver k))
          \<and> c = Fin 0 \<and> or_zero (botScore req) = 0
        \<longrightarrow> js_ge (score v) (Fin 70) \<and> verdict v \<in> {''suspicious'', ''likely-bot'', ''bot''})"
proof -
  from assms obtain fp bh where fp: "fingerprint b = Some fp"
    and vd: "verdict v = verdict_of (score v)"
    and sc: "total_score req b (reuse_of P R st req fp) = Some (score v)"
    by (rule verify_human_verdict)
  let ?cdp = "\<exists>k. checks b = Some k \<and> truthy_val (cdp k)"
  let ?wd = "\<exists>k. checks b = Some k \<and> truthy_val (webdriver k)"
  let ?re = "\<exists>e. fingerprintStore st (fingerprint_md5 P fp) = Some e \<and> ip e \<noteq> getClientIP req"
  from sc obtain c a h where
    c: "ToNumber (if truthy_val (clientScore b) then clientScore b else Num (Fin 0)) = Some c"
    and a: "artifacts_hit (checks b) = Some a" and h: "headless_hit (checks b) = Some h"
    and eq0: "score v = add_if (reuse_of P R st req fp) 20 (add_if h 50 (add_if a 65
               (add_if (webdriver_hit (checks b)) 70 (add_if (cdp_hit (checks b)) 60
                  (js_add (Fin (or_zero (botScore req))) (js_mul c (Fin 0.5)))))))"
    by (rule total_score_Some)
  have eq: "score v = add_if ?re 20 (add_if h 50 (add_if a 65 (add_if ?wd 70 (add_if ?cdp 60
               (js_add (Fin (or_zero (botScore req))) (js_mul c (Fin 0.5)))))))"
    using eq0 unfolding reuse_of_iff cdp_hit_iff webdriver_hit_iff .
  have arr_a: "a = (xs \<noteq> [])" if "checks b = Some k \<and> automationArtifacts k = array_of xs" for k xs
    using that a artifacts_array [of k xs] by simp
  have arr_h: "h = (length xs \<ge> 2)" if "checks b = Some k \<and> headlessSignals k = array_of xs" for k xs
    using that h headless_array [of k xs] by simp
  have exact: "score v = Fin (real i + real j * 0.5 + (if ?cdp then 60 else 0)
                     + (if ?wd then 70 else 0) + (if a then 65 else 0) + (if h then 50 else 0)
                     + (if ?re then 20 else 0))"
    if "or_zero (botScore req) = real i \<and> c = Fin (real j) \<and> i < 1000 \<and> j < 1000" for i j
  proof -
    from that have ij: "i < 1000" "j < 1000" and s: "or_zero (botScore req) = real i"
      and cj: "c = Fin (real j)" by simp_all
    show ?thesis unfolding eq s cj by (rule exact_score [OF ij])
  qed
  have part: "js_ge (score v) (Fin 70) \<and> verdict v \<in> {''suspicious'', ''likely-bot'', ''bot''}"
    if w: "?wd \<and> c = Fin 0 \<and> or_zero (botScore req) = 0"
  proof -
    from w have "or_zero (botScore req) = real 0 \<and> c = Fin (real 0) \<and> (0::nat) < 1000 \<and> (0::nat) < 1000"
      by simp
    from exact [OF this] w have "\<exists>x. score v = Fin x \<and> x \<ge> 70"
      by (simp add: add_nonneg_nonneg)
    then obtain x where x: "score v = Fin x" "x \<ge> 70" by blast
    then show ?thesis unfolding vd by (simp add: verdict_of_def)
  qed
  from fp c a h arr_a arr_h eq exact part show ?thesis by blast
qed

theorem final_score_witness:
  "verify_human sample_platform sample_readings empty_state
      (sample_request ''/api/verify-human'' ''Mozilla/5.0'') sample_body
   = (\<lparr>rateLimitStore = Map.empty,
       fingerprintStore = cleanup_fingerprints 1002
          [''{canvas:1}'' \<mapsto> \<lparr>ip = Some ''10.0.0.1'', count = 1, firstSeen = 1000, lastSeen = 1001\<rparr>]\<rparr>,
      \<lparr>status = 200, body = Json_verdict sample_verdict, cookie = None\<rparr>)
   \<and> clientScore sample_body = Num (Fin 30)
   \<and> score sample_verdict = Fin (0 + 30 * 0.5 + 0 + 70 + 0 + 0 + 0)"
  using final_score [OF sample_run, of sample_verdict] sample_run
  by (simp add: sample_verdict_def sample_body_def)

section \<open>Properties of the fingerprint ledger\<close>

lemma verify_human_store:
  "fingerprintStore (fst (verify_human P R st req b)) =
     (case (fingerprint b, behaviors b) of
        (Some fp, Some bh) \<Rightarrow>
          (case total_score req b (reuse_of P R st req fp) of
             None \<Rightarrow> fingerprintStore st
           | Some s \<Rightarrow> ledger_step P R req fp (fingerprintStore st))
      | _ \<Rightarrow> fingerprintStore st)"
proof (cases "fingerprint b")
  case None
  then show ?thesis by (simp add: verify_human_missing)
next
  case fp: (Some fp)
  show ?thesis
  proof (cases "behaviors b")
    case None
    with fp show ?thesis by (simp add: verify_human_missing)
  next
    case bh: (Some bh)
    show ?thesis
    proof (cases "total_score req b (reuse_of P R st req fp)")
      case None
      with fp bh show ?thesis by (simp add: verify_human_throws)
    next
      case (Some s)
      with fp bh show ?thesis by (simp add: verify_human_present)
    qed
  qed
qed

lemma verify_human_answered:
  assumes "verify_human P R st req b = (st', r)" and "body r = Json_verdict v"
    and "fingerprint b = Some fp"
  shows "fingerprintStore st' = ledger_step P R req fp (fingerprintStore st)"
proof -
  from assms(1,2) obtain fp' bh where p: "fingerprint b = Some fp'" "behaviors b = Some bh"
    and s: "total_score req b (reuse_of P R st req fp') = Some (score v)"
    by (rule verify_human_verdict)
  from p assms(3) have "fp' = fp" by simp
  with p s verify_human_store [of P R st req b] assms(1) show ?thesis by simp
qed

lemma ledger_ok_mono: "ledger_ok T store \<Longrightarrow> T \<le> T' \<Longrightarrow> ledger_ok T' store"
  unfolding ledger_ok_def by (meson order_trans)

lemma ledger_ok_observe:
  assumes "ledger_ok T store" and "T \<le> t1" and "t1 \<le> t2"
  shows "ledger_ok t2 (fst (observe t1 t2 h k store))"
proof (cases "store h")
  case None
  with assms show ?thesis
    unfolding ledger_ok_def observe_def by (auto split: if_splits) (force+)?
next
  case (Some stored)
  with assms have s: "count stored \<ge> 1" "firstSeen stored \<le> lastSeen stored" "lastSeen stored \<le> T"
    unfolding ledger_ok_def by blast+
  show ?thesis
    unfolding ledger_ok_def
  proof (intro allI impI)
    fix h' e assume a: "fst (observe t1 t2 h k store) h' = Some e"
    show "count e \<ge> 1 \<and> firstSeen e \<le> lastSeen e \<and> lastSeen e \<le> t2"
    proof (cases "h' = h")
      case True
      with a Some have "e = stored\<lparr>count := count stored + 1, lastSeen := t1\<rparr>"
        by (simp add: observe_def)
      with s assms show ?thesis by simp
    next
      case False
      with a Some have "store h' = Some e" by (simp add: observe_def)
      with assms(1) have "count e \<ge> 1" "firstSeen e \<le> lastSeen e" "lastSeen e \<le> T"
        unfolding ledger_ok_def by blast+
      with assms show ?thesis by simp
    qed
  qed
qed

lemma ledger_ok_cleanup: "ledger_ok T store \<Longrightarrow> ledger_ok T (cleanup_fingerprints now store)"
  unfolding ledger_ok_def cleanup_fingerprints_def
  by (auto split: option.splits if_splits)

lemma ledger_ok_step:
  assumes "ledger_ok T (fingerprintStore st)" and "T \<le> now1 R" and "now1 R \<le> now2 R"
    and "now2 R \<le> now3 R"
  shows "ledger_ok (now3 R) (fingerprintStore (fst (verify_human P R st req b)))"
proof -
  have T3: "T \<le> now3 R" using assms by simp
  have "ledger_ok (now3 R) (ledger_step P R req fp (fingerprintStore st))" for fp
  proof -
    have "ledger_ok (now2 R) (fst (observe (now1 R) (now2 R) (fingerprint_md5 P fp) (getClientIP req)
            (fingerprintStore st)))"
      using assms(1,2,3) by (rule ledger_ok_observe)
    then have "ledger_ok (now3 R) (fst (observe (now1 R) (now2 R) (fingerprint_md5 P fp) (getClientIP req)
            (fingerprintStore st)))"
      using assms(4) by (rule ledger_ok_mono)
    then show ?thesis by (simp add: ledger_step_def Let_def ledger_ok_cleanup)
  qed
  moreover have "ledger_ok (now3 R) (fingerprintStore st)"
    using assms(1) T3 by (rule ledger_ok_mono)
  ultimately show ?thesis
    by (simp add: verify_human_store split: option.splits)
qed

lemma ledger_ok_run:
  "ledger_ok T (fingerprintStore st) \<Longrightarrow> clock_ok T evs \<Longrightarrow>
   \<exists>T'. ledger_ok T' (fingerprintStore (run_verifications P evs st))"
proof (induction evs arbitrary: T st)
  case Nil
  then show ?case by auto
next
  case (Cons e evs)
  obtain R req b where e: "e = (R, req, b)" by (cases e) auto
  from Cons.prems e have c: "T \<le> now1 R" "now1 R \<le> now2 R" "now2 R \<le> now3 R"
    and rest: "clock_ok (now3 R) evs" by simp_all
  have "ledger_ok (now3 R) (fingerprintStore (fst (verify_human P R st req b)))"
    using Cons.prems(1) c by (rule ledger_ok_step)
  from Cons.IH [OF this rest] show ?case by (simp add: e)
qed

lemma count_observe:
  assumes "\<forall>h e. store h = Some e \<longrightarrow> count e \<ge> 1"
  shows "\<forall>h e. fst (observe t1 t2 k i store) h = Some e \<longrightarrow> count e \<ge> 1"
proof (intro allI impI)
  fix h e assume a: "fst (observe t1 t2 k i store) h = Some e"
  show "count e \<ge> 1"
  proof (cases "store k")
    case None
    show ?thesis
    proof (cases "h = k")
      case True
      with a None show ?thesis by (auto simp: observe_def)
    next
      case False
      with a None assms show ?thesis by (auto simp: observe_def)
    qed
  next
    case (Some stored)
    with assms have c: "count stored \<ge> 1" by blast
    show ?thesis
    proof (cases "h = k")
      case True
      with a Some c show ?thesis by (auto simp: observe_def)
    next
      case False
      with a Some assms show ?thesis by (auto simp: observe_def)
    qed
  qed
qed

lemma count_cleanup:
  assumes "\<forall>h e. store h = Some e \<longrightarrow> count e \<ge> 1"
  shows "\<forall>h e. cleanup_fingerprints now store h = Some e \<longrightarrow> count e \<ge> 1"
  using assms by (auto simp: cleanup_fingerprints_def split: option.splits if_splits)

lemma count_ledger_step:
  assumes "\<forall>h e. store h = Some e \<longrightarrow> count e \<ge> 1"
  shows "\<forall>h e. ledger_step P R req fp store h = Some e \<longrightarrow> count e \<ge> 1"
proof -
  have o: "\<forall>h e. fst (observe (now1 R) (now2 R) (fingerprint_md5 P fp) (getClientIP req) store) h = Some e
             \<longrightarrow> count e \<ge> 1"
    using assms by (rule count_observe)
  show ?thesis
  proof (cases "sweep R")
    case True
    with count_cleanup [OF o, of "now3 R"] show ?thesis by (simp add: ledger_step_def)
  next
    case False
    with o show ?thesis by (simp add: ledger_step_def)
  qed
qed

lemma count_step:
  assumes "\<forall>h e. fingerprintStore st h = Some e \<longrightarrow> count e \<ge> 1"
  shows "\<forall>h e. fingerprintStore (fst (verify_human P R st req b)) h = Some e \<longrightarrow> count e \<ge> 1"
  unfolding verify_human_store
  using assms count_ledger_step [OF assms, of P R req]
  by (simp split: option.splits)

lemma count_run:
  "\<forall>h e. fingerprintStore st h = Some e \<longrightarrow> count e \<ge> 1 \<Longrightarrow>
   \<forall>h e. fingerprintStore (run_verifications P evs st) h = Some e \<longrightarrow> count e \<ge> 1"
proof (induction evs arbitrary: st)
  case Nil
  then show ?case by simp
next
  case (Cons ev evs)
  obtain R req b where e: "ev = (R, req, b)" by (cases ev) auto
  have "\<forall>h e. fingerprintStore (fst (verify_human P R st req b)) h = Some e \<longrightarrow> count e \<ge> 1"
    using Cons.prems by (rule count_step)
  from Cons.IH [OF this] show ?case by (simp add: e)
qed

lemma owner_kept:
  assumes "fingerprintStore st h = Some e"
    and "fingerprintStore (fst (verify_human P R st req b)) h = Some e'"
  shows "ip e' = ip e \<and> firstSeen e' = firstSeen e"
  using assms
  by (auto simp: verify_human_store ledger_step_def observe_def cleanup_fingerprints_def Let_def
      split: option.splits if_splits)


lemma ledger_step_new:
  assumes "store (fingerprint_md5 P fp) = None" and "\<not> swept R (now2 R)"
  shows "ledger_step P R req fp store (fingerprint_md5 P fp)
         = Some \<lparr>ip = getClientIP req, count = 1, firstSeen = now1 R, lastSeen = now2 R\<rparr>"
  using assms
  by (auto simp: ledger_step_def observe_def cleanup_fingerprints_def swept_def Let_def)

lemma ledger_step_seen:
  assumes "store (fingerprint_md5 P fp) = Some e" and "\<not> swept R (now1 R)"
  shows "ledger_step P R req fp store (fingerprint_md5 P fp)
         = Some (e\<lparr>count := count e + 1, lastSeen := now1 R\<rparr>)"
  using assms
  by (auto simp: ledger_step_def observe_def cleanup_fingerprints_def swept_def Let_def)

lemma reuse_not_from_checks: "''fingerprint-reuse'' \<notin> set (body_signals b)"
  by (simp add: body_signals_def checks_signals_def split: option.splits)

lemma two_observations:
  assumes b1: "fingerprint b1 = Some fp" and b2: "fingerprint b2 = Some fp"
    and new: "fingerprintStore st (fingerprint_md5 P fp) = None"
    and keep: "\<not> swept R1 (now2 R1)" "\<not> swept R2 (now1 R2)"
    and sig: "botSignals reqB = None"
    and run1: "verify_human P R1 st reqA b1 = (st1, r1)" "body r1 = Json_verdict v1"
    and run2: "verify_human P R2 st1 reqB b2 = (st2, r2)" "body r2 = Json_verdict v2"
  shows "fingerprintStore st1 (fingerprint_md5 P fp)
           = Some \<lparr>ip = getClientIP reqA, count = 1, firstSeen = now1 R1, lastSeen = now2 R1\<rparr>
       \<and> fingerprintStore st2 (fingerprint_md5 P fp)
           = Some \<lparr>ip = getClientIP reqA, count = 2, firstSeen = now1 R1, lastSeen = now1 R2\<rparr>
       \<and> (''fingerprint-reuse'' \<in> set (signals v2) \<longleftrightarrow> getClientIP reqA \<noteq> getClientIP reqB)
       \<and> (\<exists>s. base_score reqB b2 = Some s
              \<and> score v2 = (if getClientIP reqA \<noteq> getClientIP reqB then js_add s (Fin 20) else s))"
proof -
  let ?h = "fingerprint_md5 P fp"
  let ?e1 = "\<lparr>ip = getClientIP reqA, count = 1, firstSeen = now1 R1, lastSeen = now2 R1\<rparr>"
  have s1: "fingerprintStore st1 ?h = Some ?e1"
    unfolding verify_human_answered [OF run1 b1] using new keep(1) by (rule ledger_step_new)
  have s2: "fingerprintStore st2 ?h = Some (?e1\<lparr>count := count ?e1 + 1, lastSeen := now1 R2\<rparr>)"
    unfolding verify_human_answered [OF run2 b2] using s1 keep(2) by (rule ledger_step_seen)
  have ru: "reuse_of P R2 st1 reqB fp \<longleftrightarrow> getClientIP reqA \<noteq> getClientIP reqB"
    using s1 by (simp add: reuse_of_iff)
  from run2 obtain fp' bh where p: "fingerprint b2 = Some fp'" "behaviors b2 = Some bh"
    and sc: "total_score reqB b2 (reuse_of P R2 st1 reqB fp') = Some (score v2)"
    and sigs: "signals v2 = (case botSignals reqB of None \<Rightarrow> [] | Some l \<Rightarrow> l) @ body_signals b2
                      @ (if reuse_of P R2 st1 reqB fp' then [''fingerprint-reuse''] else [])"
    by (rule verify_human_verdict)
  from p b2 have same: "fp' = fp" by simp
  from sigs have sg: "''fingerprint-reuse'' \<in> set (signals v2) \<longleftrightarrow> getClientIP reqA \<noteq> getClientIP reqB"
    using sig ru same reuse_not_from_checks [of b2] by simp
  from sc have "\<exists>s. base_score reqB b2 = Some s
              \<and> score v2 = (if getClientIP reqA \<noteq> getClientIP reqB then js_add s (Fin 20) else s)"
    unfolding same ru by (auto simp: total_score_def add_if_def split: option.splits)
  with s1 s2 sg show ?thesis by simp
qed

lemma backward_step:
  "ledger_step sample_platform backward_readings (sample_request p ua) ''{canvas:1}''
     (fingerprintStore empty_state) ''{canvas:1}''
   = Some \<lparr>ip = Some ''10.0.0.1'', count = 1, firstSeen = 1000, lastSeen = 999\<rparr>"
  by (simp add: ledger_step_def sample_ip observe_def empty_state_def sample_platform_def
      backward_readings_def sample_readings_def cleanup_fingerprints_def maxAge_def)

lemma human_score: "total_score (sample_request p ua) human_body False = Some (Fin 0)"
  by (simp add: total_score_def base_score_def client_part_def human_body_def
      sample_request_def truthy_val_def ToNumber_def artifacts_hit_def headless_hit_def
      array_of_def length_of_def js_gt_def checks_score_def add_if_def cdp_hit_def
      webdriver_hit_def or_zero_def fl_zero)

text \<open>
  C7. Every record of the ledger has a count of at least 1 and was last seen no earlier
  than first seen; the owner of a record is never reassigned; a further observation adds 1
  to the count and sets the last-seen time. The second invariant fails: an insertion reads
  the clock twice, once for the first-seen and once for the last-seen time, and when the
  clock of the machine is set back between the two readings (1000, then 999) the record
  is stored with a last-seen time before its first-seen time.
\<close>

theorem fingerprint_ledger_counterexample:
  "fingerprintStore
     (fst (verify_human sample_platform backward_readings empty_state
             (sample_request ''/api/verify-human'' ''Mozilla/5.0'') human_body)) ''{canvas:1}''
   = Some \<lparr>ip = Some ''10.0.0.1'', count = 1, firstSeen = 1000, lastSeen = 999\<rparr>
   \<and> fingerprintStore empty_state ''{canvas:1}'' = None
   \<and> now1 backward_readings = 1000 \<and> now2 backward_readings = 999
   \<and> \<not> lastSeen \<lparr>ip = Some ''10.0.0.1'', count = 1, firstSeen = 1000, lastSeen = 999\<rparr>
         \<ge> firstSeen \<lparr>ip = Some ''10.0.0.1'', count = 1, firstSeen = 1000, lastSeen = 999\<rparr>"
proof -
  let ?req = "sample_request ''/api/verify-human'' ''Mozilla/5.0''"
  have ru: "reuse_of sample_platform backward_readings empty_state ?req ''{canvas:1}'' = False"
    by (simp add: reuse_of_def observe_def empty_state_def sample_platform_def)
  have "fingerprintStore (fst (verify_human sample_platform backward_readings empty_state ?req human_body))
        = ledger_step sample_platform backward_readings ?req ''{canvas:1}'' (fingerprintStore empty_state)"
    unfolding verify_human_store by (simp add: human_body_def ru human_score [unfolded human_body_def])
  then show ?thesis
    by (simp add: backward_step) (simp add: empty_state_def backward_readings_def)
qed

text \<open>
  C7, amended. In every state the handler reaches from a ledger whose counts are at least
  1 (the empty one at start), every record has a count of at least 1, whatever the clock
  does; and every record was last seen no earlier than first seen provided the clock never
  went back. No run of the handler changes the owner of a record it keeps. A verification
  that is answered with a verdict, of a fingerprint whose record exists, adds 1 to its
  count and sets its last-seen time to the current time. And when a fingerprint that is
  not in the ledger is verified from identity A and then from identity B (both answered
  with a verdict, no clean-up deleting the record in between), the record is owned by A
  with count 1 after the first and still owned by A, with count 2 and its first-seen time
  unchanged, after the second; the second response carries the reuse signal, and has 20
  added to its score, exactly when B differs from A.
\<close>

theorem fingerprint_ledger:
  assumes "\<forall>h e. fingerprintStore st0 h = Some e \<longrightarrow> count e \<ge> 1"
    and "st = run_verifications P evs st0"
  shows "(\<forall>h e. fingerprintStore st h = Some e \<longrightarrow> count e \<ge> 1)
       \<and> (\<forall>T. ledger_ok T (fingerprintStore st0) \<and> clock_ok T evs
            \<longrightarrow> (\<forall>h e. fingerprintStore st h = Some e \<longrightarrow> lastSeen e \<ge> firstSeen e))
       \<and> (\<forall>R req b h e e'.
            fingerprintStore st h = Some e
            \<and> fingerprintStore (fst (verify_human P R st req b)) h = Some e'
            \<longrightarrow> ip e' = ip e)
       \<and> (\<forall>R req b fp e st' r v.
            fingerprint b = Some fp
            \<and> fingerprintStore st (fingerprint_md5 P fp) = Some e \<and> \<not> swept R (now1 R)
            \<and> verify_human P R st req b = (st', r) \<and> body r = Json_verdict v
            \<longrightarrow> fingerprintStore st' (fingerprint_md5 P fp)
                = Some (e\<lparr>count := count e + 1, lastSeen := now1 R\<rparr>))
       \<and> (\<forall>R1 reqA b1 R2 reqB b2 fp st1 r1 v1 st2 r2 v2.
            fingerprint b1 = Some fp \<and> fingerprint b2 = Some fp
            \<and> fingerprintStore st (fingerprint_md5 P fp) = None
            \<and> \<not> swept R1 (now2 R1) \<and> \<not> swept R2 (now1 R2)
            \<and> botSignals reqB = None
            \<and> verify_human P R1 st reqA b1 = (st1, r1) \<and> body r1 = Json_verdict v1
            \<and> verify_human P R2 st1 reqB b2 = (st2, r2) \<and> body r2 = Json_verdict v2
            \<longrightarrow> fingerprintStore st1 (fingerprint_md5 P fp)
                  = Some \<lparr>ip = getClientIP reqA, count = 1, firstSeen = now1 R1, lastSeen = now2 R1\<rparr>
                \<and> fingerprintStore st2 (fingerprint_md5 P fp)
                  = Some \<lparr>ip = getClientIP reqA, count = 2, firstSeen = now1 R1, lastSeen = now1 R2\<rparr>
                \<and> (''fingerprint-reuse'' \<in> set (signals v2)
                      \<longleftrightarrow> getClientIP reqA \<noteq> getClientIP reqB)
                \<and> (\<exists>s. base_score reqB b2 = Some s
                       \<and> score v2 = (if getClientIP reqA \<noteq> getClientIP reqB
                                     then js_add s (Fin 20) else s)))"
proof -
  have cnt: "\<forall>h e. fingerprintStore st h = Some e \<longrightarrow> count e \<ge> 1"
    unfolding assms(2) using assms(1) by (rule count_run)
  have inv: "\<forall>T. ledger_ok T (fingerprintStore st0) \<and> clock_ok T evs
            \<longrightarrow> (\<forall>h e. fingerprintStore st h = Some e \<longrightarrow> lastSeen e \<ge> firstSeen e)"
  proof (intro allI impI)
    fix T h e
    assume a: "ledger_ok T (fingerprintStore st0) \<and> clock_ok T evs"
      and s: "fingerprintStore st h = Some e"
    from a have l: "ledger_ok T (fingerprintStore st0)" and c: "clock_ok T evs" by simp_all
    from l c have "\<exists>T'. ledger_ok T' (fingerprintStore (run_verifications P evs st0))"
      by (rule ledger_ok_run)
    then obtain T' where "ledger_ok T' (fingerprintStore st)" unfolding assms(2) by blast
    with s show "lastSeen e \<ge> firstSeen e" unfolding ledger_ok_def by blast
  qed
  have own: "\<forall>R req b h e e'.
            fingerprintStore st h = Some e
            \<and> fingerprintStore (fst (verify_human P R st req b)) h = Some e'
            \<longrightarrow> ip e' = ip e"
    using owner_kept by blast
  have upd: "\<forall>R req b fp e st' r v.
            fingerprint b = Some fp
            \<and> fingerprintStore st (fingerprint_md5 P fp) = Some e \<and> \<not> swept R (now1 R)
            \<and> verify_human P R st req b = (st', r) \<and> body r = Json_verdict v
            \<longrightarrow> fingerprintStore st' (fingerprint_md5 P fp)
                = Some (e\<lparr>count := count e + 1, lastSeen := now1 R\<rparr>)"
  proof (intro allI impI, elim conjE)
    fix R req b fp e st' r v
    assume fp: "fingerprint b = Some fp"
      and e: "fingerprintStore st (fingerprint_md5 P fp) = Some e" "\<not> swept R (now1 R)"
      and run: "verify_human P R st req b = (st', r)" "body r = Json_verdict v"
    show "fingerprintStore st' (fingerprint_md5 P fp)
                = Some (e\<lparr>count := count e + 1, lastSeen := now1 R\<rparr>)"
      unfolding verify_human_answered [OF run fp] using e by (rule ledger_step_seen)
  qed
  have two: "\<forall>R1 reqA b1 R2 reqB b2 fp st1 r1 v1 st2 r2 v2.
            fingerprint b1 = Some fp \<and> fingerprint b2 = Some fp
            \<and> fingerprintStore st (fingerprint_md5 P fp) = None
            \<and> \<not> swept R1 (now2 R1) \<and> \<not> swept R2 (now1 R2)
            \<and> botSignals reqB = None
            \<and> verify_human P R1 st reqA b1 = (st1, r1) \<and> body r1 = Json_verdict v1
            \<and> verify_human P R2 st1 reqB b2 = (st2, r2) \<and> body r2 = Json_verdict v2
            \<longrightarrow> fingerprintStore st1 (fingerprint_md5 P fp)
                  = Some \<lparr>ip = getClientIP reqA, count = 1, firstSeen = now1 R1, lastSeen = now2 R1\<rparr>
                \<and> fingerprintStore st2 (fingerprint_md5 P fp)
                  = Some \<lparr>ip = getClientIP reqA, count = 2, firstSeen = now1 R1, lastSeen = now1 R2\<rparr>
                \<and> (''fingerprint-reuse'' \<in> set (signals v2)
                      \<longleftrightarrow> getClientIP reqA \<noteq> getClientIP reqB)
                \<and> (\<exists>s. base_score reqB b2 = Some s
                       \<and> score v2 = (if getClientIP reqA \<noteq> getClientIP reqB
                                     then js_add s (Fin 20) else s))"
  proof (intro allI impI, elim conjE)
    fix R1 reqA b1 R2 reqB b2 fp st1 r1 v1 st2 r2 v2
    assume "fingerprint b1 = Some fp" "fingerprint b2 = Some fp"
      "fingerprintStore st (fingerprint_md5 P fp) = None"
      "\<not> swept R1 (now2 R1)" "\<not> swept R2 (now1 R2)"
      "botSignals reqB = None"
      "verify_human P R1 st reqA b1 = (st1, r1)" "body r1 = Json_verdict v1"
      "verify_human P R2 st1 reqB b2 = (st2, r2)" "body r2 = Json_verdict v2"
    then show "fingerprintStore st1 (fingerprint_md5 P fp)
                  = Some \<lparr>ip = getClientIP reqA, count = 1, firstSeen = now1 R1, lastSeen = now2 R1\<rparr>
                \<and> fingerprintStore st2 (fingerprint_md5 P fp)
                  = Some \<lparr>ip = getClientIP reqA, count = 2, firstSeen = now1 R1, lastSeen = now1 R2\<rparr>
                \<and> (''fingerprint-reuse'' \<in> set (signals v2)
                      \<longleftrightarrow> getClientIP reqA \<noteq> getClientIP reqB)
                \<and> (\<exists>s. base_score reqB b2 = Some s
                       \<and> score v2 = (if getClientIP reqA \<noteq> getClientIP reqB
                                     then js_add s (Fin 20) else s))"
      by (rule two_observations)
  qed
  from cnt inv own upd two show ?thesis by (intro conjI)
qed

lemma total_score_fingerprint: "total_score req (b\<lparr>fingerprint := f\<rparr>) r = total_score req b r"
  by (simp add: total_score_def base_score_def split: option.splits)

lemma earlier_store:
  "fingerprintStore (run_verifications sample_platform earlier_visit empty_state)
   = cleanup_fingerprints 101
       [''{canvas:0}'' \<mapsto> \<lparr>ip = Some ''10.0.0.1'', count = 1, firstSeen = 100, lastSeen = 100\<rparr>]"
proof -
  let ?req = "sample_request ''/api/verify-human'' ''Mozilla/5.0''"
  let ?b = "sample_body\<lparr>fingerprint := Some ''{canvas:0}''\<rparr>"
  let ?R = "sample_readings\<lparr>now1 := 100, now2 := 100, now3 := 101\<rparr>"
  have sc: "total_score ?req ?b False = Some (Fin 85)"
    unfolding total_score_fingerprint by (rule sample_score)
  have ru: "reuse_of sample_platform ?R empty_state ?req ''{canvas:0}'' = False"
    by (simp add: reuse_of_def observe_def empty_state_def sample_platform_def)
  have fp: "fingerprint ?b = Some ''{canvas:0}''" "behaviors ?b = Some no_behaviors"
    by (simp_all add: sample_body_def)
  have sc': "total_score ?req ?b (reuse_of sample_platform ?R empty_state ?req ''{canvas:0}'')
               = Some (Fin 85)"
    unfolding ru by (rule sc)
  have "fingerprintStore (fst (verify_human sample_platform ?R empty_state ?req ?b))
        = ledger_step sample_platform ?R ?req ''{canvas:0}'' (fingerprintStore empty_state)"
    unfolding verify_human_present [OF fp sc'] by simp
  then show ?thesis
    by (simp add: earlier_visit_def ledger_step_def observe_def sample_platform_def
        sample_readings_def empty_state_def sample_ip)
qed

lemma other_ip: "getClientIP other_request = Some ''10.0.0.9''"
  by (simp add: other_request_def sample_request_def getClientIP_def js_or_def truthy_def trim_def
      first_field_def white_space_def)

lemma reuse_score: "total_score other_request human_body True = Some (Fin 20)"
  by (simp add: total_score_def base_score_def client_part_def human_body_def other_request_def
      sample_request_def truthy_val_def ToNumber_def artifacts_hit_def headless_hit_def
      array_of_def length_of_def js_gt_def checks_score_def add_if_def cdp_hit_def
      webdriver_hit_def or_zero_def num_eval)

theorem fingerprint_ledger_witness:
  "fingerprintStore empty_state = Map.empty
   \<and> ledger_ok 0 (fingerprintStore empty_state) \<and> clock_ok 0 earlier_visit
   \<and> fingerprintStore (run_verifications sample_platform earlier_visit empty_state) ''{canvas:0}''
       = Some \<lparr>ip = Some ''10.0.0.1'', count = 1, firstSeen = 100, lastSeen = 100\<rparr>
   \<and> getClientIP (sample_request ''/api/verify-human'' ''Mozilla/5.0'') = Some ''10.0.0.1''
   \<and> getClientIP other_request = Some ''10.0.0.9''
   \<and> snd (verify_human sample_platform sample_readings
             (run_verifications sample_platform earlier_visit empty_state)
             (sample_request ''/api/verify-human'' ''Mozilla/5.0'') human_body)
      = \<lparr>status = 200, body = Json_verdict human_verdict, cookie = None\<rparr>
   \<and> snd (verify_human sample_platform later_readings
               (fst (verify_human sample_platform sample_readings
                      (run_verifications sample_platform earlier_visit empty_state)
                      (sample_request ''/api/verify-human'' ''Mozilla/5.0'') human_body))
               other_request human_body)
      = \<lparr>status = 200, body = Json_verdict reuse_verdict, cookie = None\<rparr>
   \<and> fingerprintStore
        (fst (verify_human sample_platform later_readings
               (fst (verify_human sample_platform sample_readings
                      (run_verifications sample_platform earlier_visit empty_state)
                      (sample_request ''/api/verify-human'' ''Mozilla/5.0'') human_body))
               other_request human_body)) ''{canvas:1}''
      = Some \<lparr>ip = Some ''10.0.0.1'', count = 2, firstSeen = 1000, lastSeen = 2000\<rparr>
   \<and> ''fingerprint-reuse'' \<in> set (signals reuse_verdict) \<and> score reuse_verdict = Fin 20"
proof -
  let ?reqA = "sample_request ''/api/verify-human'' ''Mozilla/5.0''"
  let ?st = "run_verifications sample_platform earlier_visit empty_state"
  let ?st1 = "fst (verify_human sample_platform sample_readings ?st ?reqA human_body)"
  let ?out = "verify_human sample_platform later_readings ?st1 other_request human_body"
  have emp: "fingerprintStore empty_state = Map.empty" by (simp add: empty_state_def)
  then have ok: "\<forall>h e. fingerprintStore empty_state h = Some e \<longrightarrow> count e \<ge> 1" by simp
  have clk: "clock_ok 0 earlier_visit" by (simp add: earlier_visit_def)
  have old: "fingerprintStore ?st ''{canvas:0}''
       = Some \<lparr>ip = Some ''10.0.0.1'', count = 1, firstSeen = 100, lastSeen = 100\<rparr>"
    by (simp add: earlier_store cleanup_fingerprints_def maxAge_def)
  have ipA: "getClientIP ?reqA = Some ''10.0.0.1''" by (rule sample_ip)
  have md5: "fingerprint_md5 sample_platform ''{canvas:1}'' = ''{canvas:1}''"
    by (simp add: sample_platform_def)
  have new: "fingerprintStore ?st (fingerprint_md5 sample_platform ''{canvas:1}'') = None"
    by (simp add: md5 earlier_store cleanup_fingerprints_def)
  have fp: "fingerprint human_body = Some ''{canvas:1}''" "behaviors human_body = Some no_behaviors"
    by (simp_all add: human_body_def)
  have up: "urlParams human_body = Some \<lparr>path = Str ''/foo'', query = Str []\<rparr>"
    by (simp add: human_body_def)
  have ru1: "reuse_of sample_platform sample_readings ?st ?reqA ''{canvas:1}'' = False"
    using new by (simp add: reuse_of_iff)
  have sc1: "total_score ?reqA human_body
               (reuse_of sample_platform sample_readings ?st ?reqA ''{canvas:1}'') = Some (Fin 0)"
    unfolding ru1 by (rule human_score)
  have hs: "body_signals human_body = []"
    using human_signals [of "clientScore human_body"] by simp
  have nb: "\<not> isBot (Fin 0)" "verdict_of (Fin 0) = ''human''"
    "\<not> isBot (Fin 20)" "verdict_of (Fin 20) = ''human''"
    by (simp_all add: isBot_def verdict_of_def)
  have rnd: "random sample_readings = sample_random" "random later_readings = sample_random"
    by (simp_all add: sample_readings_def later_readings_def)
  have run1: "verify_human sample_platform sample_readings ?st ?reqA human_body
      = (?st1, \<lparr>status = 200, body = Json_verdict human_verdict, cookie = None\<rparr>)"
    unfolding verify_human_present [OF fp sc1] up rnd sample_redirect [OF nb(1)] hs ru1
    by (simp add: nb human_verdict_def sample_request_def)
  have s1: "fingerprintStore ?st1 ''{canvas:1}''
      = Some \<lparr>ip = Some ''10.0.0.1'', count = 1, firstSeen = 1000, lastSeen = 1001\<rparr>"
    unfolding verify_human_present [OF fp sc1]
    using ledger_step_new [where store = "fingerprintStore ?st" and P = sample_platform
        and fp = "''{canvas:1}''" and R = sample_readings and req = ?reqA] new
    by (simp add: md5 ipA swept_def sample_readings_def maxAge_def)
  have ru2: "reuse_of sample_platform later_readings ?st1 other_request ''{canvas:1}'' = True"
    using s1 by (simp add: reuse_of_iff md5 other_ip)
  have sc2: "total_score other_request human_body
               (reuse_of sample_platform later_readings ?st1 other_request ''{canvas:1}'') = Some (Fin 20)"
    unfolding ru2 by (rule reuse_score)
  have run2: "?out = (fst ?out, \<lparr>status = 200, body = Json_verdict reuse_verdict, cookie = None\<rparr>)"
    unfolding verify_human_present [OF fp sc2] up rnd sample_redirect [OF nb(3)] hs ru2
    by (simp add: nb reuse_verdict_def other_request_def sample_request_def)
  have hyp: "fingerprint human_body = Some ''{canvas:1}'' \<and> fingerprint human_body = Some ''{canvas:1}''
            \<and> fingerprintStore ?st (fingerprint_md5 sample_platform ''{canvas:1}'') = None
            \<and> \<not> swept sample_readings (now2 sample_readings)
            \<and> \<not> swept later_readings (now1 later_readings)
            \<and> botSignals other_request = None
            \<and> verify_human sample_platform sample_readings ?st ?reqA human_body
                = (?st1, \<lparr>status = 200, body = Json_verdict human_verdict, cookie = None\<rparr>)
            \<and> body \<lparr>status = 200, body = Json_verdict human_verdict, cookie = None\<rparr>
                = Json_verdict human_verdict
            \<and> ?out = (fst ?out, \<lparr>status = 200, body = Json_verdict reuse_verdict, cookie = None\<rparr>)
            \<and> body \<lparr>status = 200, body = Json_verdict reuse_verdict, cookie = None\<rparr>
                = Json_verdict reuse_verdict"
    using new run1 run2 fp
    by (simp add: swept_def sample_readings_def later_readings_def
        maxAge_def other_request_def sample_request_def)
  note all = fingerprint_ledger [OF ok refl, of sample_platform earlier_visit]
  note th = all [THEN conjunct2, THEN conjunct2, THEN conjunct2, THEN conjunct2, rule_format, OF hyp]
  have times: "now1 sample_readings = 1000" "now1 later_readings = 2000"
    by (simp_all add: sample_readings_def later_readings_def)
  from th have a: "fingerprintStore (fst ?out) ''{canvas:1}''
      = Some \<lparr>ip = Some ''10.0.0.1'', count = 2, firstSeen = 1000, lastSeen = 2000\<rparr>"
    by (simp add: md5 times ipA)
  from th have b: "''fingerprint-reuse'' \<in> set (signals reuse_verdict)"
    by (simp add: ipA other_ip)
  have c: "score reuse_verdict = Fin 20" by (simp add: reuse_verdict_def)
  have lok: "ledger_ok 0 (fingerprintStore empty_state)"
    by (simp add: ledger_ok_def empty_state_def)
  from all [THEN conjunct2, THEN conjunct1, rule_format, of 0 "''{canvas:0}''"] lok clk old
  have ord: "firstSeen \<lparr>ip = Some ''10.0.0.1'', count = 1, firstSeen = 100, lastSeen = 100\<rparr>
             \<le> lastSeen \<lparr>ip = Some ''10.0.0.1'', count = 1, firstSeen = 100, lastSeen = 100\<rparr>"
    by blast
  have r1: "snd (verify_human sample_platform sample_readings ?st ?reqA human_body)
      = \<lparr>status = 200, body = Json_verdict human_verdict, cookie = None\<rparr>"
    using run1 by (metis snd_conv)
  have r2: "snd ?out = \<lparr>status = 200, body = Json_verdict reuse_verdict, cookie = None\<rparr>"
    using run2 by (metis snd_conv)
  from emp lok clk old ipA other_ip r1 r2 a b c show ?thesis by (intro conjI)
qed

section \<open>Properties of the redirect construction\<close>












section \<open>Properties of the application\<close>


























section \<open>Properties of the bot detection middleware\<close>























section \<open>Properties of the proof-of-work check\<close>

lemma elapsed_int:
  assumes "\<bar>now - x\<bar> < 2 ^ 53"
  shows "js_sub (Fin (real_of_int now)) (Fin (real_of_int x)) = Fin (real_of_int (now - x))"
proof -
  have "real_of_int now + - real_of_int x = real_of_int (now - x)" by simp
  then show ?thesis
    unfolding js_sub_def js_neg_def using fl_int [OF assms] by simp
qed

lemma expired_int:
  assumes "\<bar>now - x\<bar> < 2 ^ 53"
  shows "js_gt (js_sub (Fin (real_of_int now)) (Fin (real_of_int x))) (Fin 30000) \<longleftrightarrow> now - x > 30000"
  unfolding elapsed_int [OF assms] by (auto simp: js_gt_def)

lemma plus_strings: "js_plus pr (Str c) (Str n) = Some (Str (c @ n))"
  by (simp add: js_plus_def ToPrimitive_def is_string_def ToString_def)

lemma four_zeros: "startsWith d ''0000'' \<longleftrightarrow> take 4 d = ''0000''"
  using startsWith_take [of d "''0000''"] by (simp add: eval_nat_numeral)

lemma verify_pow_cases:
  assumes "truthy_val (challenge b)" and "nonce b \<noteq> Undefined" and "truthy_val (timestamp b)"
  shows "verify_pow P now b =
     (case ToNumber (timestamp b) of
        None \<Rightarrow> \<lparr>status = 500, body = Server_error, cookie = None\<rparr>
      | Some t \<Rightarrow>
          if js_gt (js_sub (Fin (real_of_int now)) t) (Fin 30000)
          then \<lparr>status = 200, body = Json_pow False (Some ''Challenge expired''), cookie = None\<rparr>
          else (case pow_hash P (challenge b) (nonce b) of
                  None \<Rightarrow> \<lparr>status = 500, body = Server_error, cookie = None\<rparr>
                | Some digest \<Rightarrow>
                    \<lparr>status = 200, body = Json_pow (take 4 digest = ''0000'') None, cookie = None\<rparr>))"
  using assms by (simp add: verify_pow_def four_zeros split: option.splits)

lemma pow_hash_Some:
  "pow_hash P c n = Some d \<longleftrightarrow> (\<exists>s. js_plus (number_toString P) c n = Some (Str s) \<and> d = sha256_hex P s)"
  by (auto simp: pow_hash_def split: option.splits jsval.splits)

text \<open>
  C5. For a submission with all three fields present, the answer is valid exactly when the
  digest has four leading zeros and the timestamp is at most 30000 ms behind the clock,
  and a timestamp further behind is answered \<open>Challenge expired\<close>. Both fail for
  fields that are present: a timestamp of 0 counts as missing and is answered 400 instead
  of \<open>Challenge expired\<close>, and a timestamp that is no number (\<^verbatim>\<open>"x"\<close>) makes the
  difference NaN, which passes the freshness test however old the challenge is.
\<close>

theorem pow_valid_counterexample:
  "verify_pow sample_platform 1700000000000 (pow_body (Str ''token'') (Str ''42'') (Num (Fin 0)))
     = \<lparr>status = 400, body = Json_error ''Missing required data'', cookie = None\<rparr>
   \<and> (1700000000000 :: real) - 0 > 30000
   \<and> verify_pow sample_platform 1700000000000 (pow_body (Str ''token'') (Str ''42'') (Str ''x''))
     = \<lparr>status = 200, body = Json_pow True None, cookie = None\<rparr>
   \<and> ToNumber (Str ''x'') = Some NaN
   \<and> \<not> js_le (js_sub (Fin 1700000000000) NaN) (Fin 30000)"
  by (simp add: verify_pow_def pow_body_def truthy_val_def ToNumber_def str_eval js_sub_def
      js_neg_def js_gt_def js_le_def pow_hash_def plus_strings sample_platform_def)

text \<open>
  C5, amended. For a submission whose \<open>challenge\<close> and \<open>timestamp\<close> are truthy and
  whose \<open>nonce\<close> is not undefined, the answer is valid exactly when the timestamp
  converts to a number, the test \<^verbatim>\<open>now - timestamp > 30000\<close> fails (as it does when the
  difference is NaN), \<^verbatim>\<open>challenge + nonce\<close> is a string, and the first four characters
  of its SHA-256 hex digest are zeros; when the test succeeds the answer is
  \<open>Challenge expired\<close> whatever the digest. For a challenge and a nonce that are strings
  and a timestamp that is a whole number (as the challenge endpoint issues it), the sum is
  the concatenation, the test is that the timestamp is more than 30000 ms behind the clock,
  and a timestamp in the future passes it.
\<close>

theorem pow_valid_iff:
  assumes "truthy_val (challenge b)" and "nonce b \<noteq> Undefined" and "truthy_val (timestamp b)"
  shows "((\<exists>reason. body (verify_pow P now b) = Json_pow True reason)
            \<longleftrightarrow> (\<exists>t s. ToNumber (timestamp b) = Some t
                   \<and> \<not> js_gt (js_sub (Fin (real_of_int now)) t) (Fin 30000)
                   \<and> js_plus (number_toString P) (challenge b) (nonce b) = Some (Str s)
                   \<and> take 4 (sha256_hex P s) = ''0000''))
       \<and> (\<forall>t. ToNumber (timestamp b) = Some t \<and> js_gt (js_sub (Fin (real_of_int now)) t) (Fin 30000)
            \<longrightarrow> verify_pow P now b
                 = \<lparr>status = 200, body = Json_pow False (Some ''Challenge expired''), cookie = None\<rparr>)
       \<and> (\<forall>c n x. challenge b = Str c \<and> nonce b = Str n \<and> timestamp b = Num (Fin (real_of_int x))
              \<and> \<bar>now - x\<bar> < 2 ^ 53
            \<longrightarrow> verify_pow P now b
                 = (if now - x > 30000
                    then \<lparr>status = 200, body = Json_pow False (Some ''Challenge expired''),
                          cookie = None\<rparr>
                    else \<lparr>status = 200,
                          body = Json_pow (take 4 (sha256_hex P (c @ n)) = ''0000'') None,
                          cookie = None\<rparr>))"
proof -
  note vp = verify_pow_cases [OF assms, of P now]
  have one: "(\<exists>reason. body (verify_pow P now b) = Json_pow True reason)
            \<longleftrightarrow> (\<exists>t s. ToNumber (timestamp b) = Some t
                   \<and> \<not> js_gt (js_sub (Fin (real_of_int now)) t) (Fin 30000)
                   \<and> js_plus (number_toString P) (challenge b) (nonce b) = Some (Str s)
                   \<and> take 4 (sha256_hex P s) = ''0000'')"
  proof (cases "ToNumber (timestamp b)")
    case None
    then show ?thesis unfolding vp by simp
  next
    case t: (Some t)
    show ?thesis
    proof (cases "js_gt (js_sub (Fin (real_of_int now)) t) (Fin 30000)")
      case True
      with t show ?thesis unfolding vp by simp
    next
      case fresh: False
      show ?thesis
      proof (cases "pow_hash P (challenge b) (nonce b)")
        case None
        then have "\<not> (\<exists>s. js_plus (number_toString P) (challenge b) (nonce b) = Some (Str s))"
          using pow_hash_Some [of P "challenge b" "nonce b"] by auto
        with None t fresh show ?thesis unfolding vp by simp
      next
        case (Some d)
        then obtain s where s: "js_plus (number_toString P) (challenge b) (nonce b) = Some (Str s)"
          "d = sha256_hex P s" unfolding pow_hash_Some by blast
        with Some t fresh show ?thesis unfolding vp by simp
      qed
    qed
  qed
  have two: "verify_pow P now b
                 = \<lparr>status = 200, body = Json_pow False (Some ''Challenge expired''), cookie = None\<rparr>"
    if "ToNumber (timestamp b) = Some t \<and> js_gt (js_sub (Fin (real_of_int now)) t) (Fin 30000)" for t
    using that unfolding vp by simp
  have three: "verify_pow P now b
                 = (if now - x > 30000
                    then \<lparr>status = 200, body = Json_pow False (Some ''Challenge expired''),
                          cookie = None\<rparr>
                    else \<lparr>status = 200,
                          body = Json_pow (take 4 (sha256_hex P (c @ n)) = ''0000'') None,
                          cookie = None\<rparr>)"
    if h: "challenge b = Str c \<and> nonce b = Str n \<and> timestamp b = Num (Fin (real_of_int x))
              \<and> \<bar>now - x\<bar> < 2 ^ 53" for c n x
  proof -
    from h have t: "ToNumber (timestamp b) = Some (Fin (real_of_int x))" by (simp add: ToNumber_def)
    from h have ex: "js_gt (js_sub (Fin (real_of_int now)) (Fin (real_of_int x))) (Fin 30000)
                     \<longleftrightarrow> now - x > 30000"
      by (intro expired_int) simp
    from h have ph: "pow_hash P (challenge b) (nonce b) = Some (sha256_hex P (c @ n))"
      by (simp add: pow_hash_def plus_strings)
    show ?thesis unfolding vp t ph by (simp add: ex)
  qed
  from one two three show ?thesis by blast
qed

theorem pow_valid_iff_witness:
  "truthy_val (Str ''token'') \<and> Str ''42'' \<noteq> Undefined \<and> truthy_val (Num (Fin 10000))
   \<and> verify_pow sample_platform 40000 (pow_body (Str ''token'') (Str ''42'') (Num (Fin 10000)))
     = \<lparr>status = 200, body = Json_pow True None, cookie = None\<rparr>
   \<and> verify_pow sample_platform 40001 (pow_body (Str ''token'') (Str ''42'') (Num (Fin 10000)))
     = \<lparr>status = 200, body = Json_pow False (Some ''Challenge expired''), cookie = None\<rparr>
   \<and> verify_pow sample_platform 40000 (pow_body (Str ''token'') (Str ''42'') (Num (Fin 99999)))
     = \<lparr>status = 200, body = Json_pow True None, cookie = None\<rparr>
   \<and> sha256_hex sample_platform ''token43'' = ''000ab0token43''
   \<and> verify_pow sample_platform 40000 (pow_body (Str ''token'') (Str ''43'') (Num (Fin 10000)))
     = \<lparr>status = 200, body = Json_pow False None, cookie = None\<rparr>"
proof -
  have pre: "truthy_val (challenge (pow_body (Str ''token'') n (Num (Fin t))))"
    "n \<noteq> Undefined \<Longrightarrow> nonce (pow_body (Str ''token'') n (Num (Fin t))) \<noteq> Undefined"
    "t \<noteq> 0 \<Longrightarrow> truthy_val (timestamp (pow_body (Str ''token'') n (Num (Fin t))))" for n t
    by (simp_all add: pow_body_def truthy_val_def)
  have f: "challenge (pow_body (Str ''token'') (Str n) (Num (Fin (real_of_int x)))) = Str ''token''
         \<and> nonce (pow_body (Str ''token'') (Str n) (Num (Fin (real_of_int x)))) = Str n
         \<and> timestamp (pow_body (Str ''token'') (Str n) (Num (Fin (real_of_int x))))
             = Num (Fin (real_of_int x))" for n x
    by (simp add: pow_body_def)
  have a: "verify_pow sample_platform 40000 (pow_body (Str ''token'') (Str ''42'') (Num (Fin 10000)))
     = \<lparr>status = 200, body = Json_pow True None, cookie = None\<rparr>"
    using pow_valid_iff [OF pre(1) pre(2) pre(3), of "Str ''42''" 10000 sample_platform 40000,
        THEN conjunct2, THEN conjunct2, rule_format, of "''token''" "''42''" 10000] f [of "''42''" 10000]
    by (simp add: sample_platform_def)
  have b: "verify_pow sample_platform 40001 (pow_body (Str ''token'') (Str ''42'') (Num (Fin 10000)))
     = \<lparr>status = 200, body = Json_pow False (Some ''Challenge expired''), cookie = None\<rparr>"
    using pow_valid_iff [OF pre(1) pre(2) pre(3), of "Str ''42''" 10000 sample_platform 40001,
        THEN conjunct2, THEN conjunct2, rule_format, of "''token''" "''42''" 10000] f [of "''42''" 10000]
    by (simp add: sample_platform_def)
  have c: "verify_pow sample_platform 40000 (pow_body (Str ''token'') (Str ''42'') (Num (Fin 99999)))
     = \<lparr>status = 200, body = Json_pow True None, cookie = None\<rparr>"
    using pow_valid_iff [OF pre(1) pre(2) pre(3), of "Str ''42''" 99999 sample_platform 40000,
        THEN conjunct2, THEN conjunct2, rule_format, of "''token''" "''42''" 99999] f [of "''42''" 99999]
    by (simp add: sample_platform_def)
  have d: "verify_pow sample_platform 40000 (pow_body (Str ''token'') (Str ''43'') (Num (Fin 10000)))
     = \<lparr>status = 200, body = Json_pow False None, cookie = None\<rparr>"
    using pow_valid_iff [OF pre(1) pre(2) pre(3), of "Str ''43''" 10000 sample_platform 40000,
        THEN conjunct2, THEN conjunct2, rule_format, of "''token''" "''43''" 10000] f [of "''43''" 10000]
    by (simp add: sample_platform_def)
  have e: "sha256_hex sample_platform ''token43'' = ''000ab0token43''"
    by (simp add: sample_platform_def)
  from a b c d e show ?thesis by (simp add: truthy_val_def)
qed

section \<open>Properties of the client detector\<close>

lemma simpleHash_ab: "simpleHash ''ab'' = ''2e9''"
  by (simp add: simpleHash_def digit36_def)

lemma and_then_Inr: "(\<exists>y. and_then r f = Inr y) \<longleftrightarrow> (\<exists>x. r = Inr x \<and> (\<exists>y. f x = Inr y))"
  by (cases r) (simp_all add: and_then_def)

lemma detectHeadless_returns:
  "(\<exists>d'. detectHeadless env d = Inr d') \<longleftrightarrow> nav_plugins env \<noteq> None \<and> nav_mimeTypes env \<noteq> None"
  by (auto simp: detectHeadless_def Let_def split: option.splits)

lemma checkAutomationArtifacts_returns:
  "(\<exists>d'. checkAutomationArtifacts env d = Inr d') \<longleftrightarrow>
     selenium_recorder env \<or> documentElement env \<noteq> None"
  by (auto simp: checkAutomationArtifacts_def Let_def split: option.splits)

lemma generateFingerprint_returns:
  "(\<exists>d'. generateFingerprint env d = Inr d') \<longleftrightarrow> context2d env \<noteq> None"
  by (auto simp: generateFingerprint_def getFontFingerprint_def Let_def split: option.splits)

lemma detect_returns_iff:
  "(\<exists>r. detect cfg env = Inr r) \<longleftrightarrow>
     nav_plugins env \<noteq> None \<and> nav_mimeTypes env \<noteq> None
     \<and> (selenium_recorder env \<or> documentElement env \<noteq> None)
     \<and> context2d env \<noteq> None"
proof -
  have cdp: "\<exists>d'. detectCDP env d = Inr d'" for d by (simp add: detectCDP_def Let_def)
  have wd: "\<exists>d'. detectWebDriver env d = Inr d'" for d by (simp add: detectWebDriver_def Let_def)
  have nav: "\<exists>d'. checkNavigatorInconsistencies env d = Inr d'" for d
    by (simp add: checkNavigatorInconsistencies_def Let_def)
  show ?thesis
    unfolding detect_def and_then_Inr
    using cdp wd nav
    by (metis detectHeadless_returns checkAutomationArtifacts_returns generateFingerprint_returns)
qed

lemma sample_detect:
  "detect default_config sample_browser
   = Inr \<lparr>r_isBot = False, r_score = 0,
          r_checks = \<lparr>ck_cdp = Some False, ck_webdriver = Some False, ck_headlessSignals = Some [],
                      ck_permissionInconsistency = None, ck_navigatorIssues = Some [],
                      ck_automationArtifacts = Some [], ck_behaviorScore = Some 0\<rparr>,
          r_behaviors = no_behaviors,
          r_fingerprint = Some \<lparr>fp_canvas = Some ''2e9'', fp_webgl = getWebGLFingerprint sample_browser,
                                 fp_audio = getAudioFingerprint sample_browser, fp_fonts = [''Arial''],
                                 fp_screen = screen sample_browser, fp_browser = nav_rest sample_browser\<rparr>\<rparr>"
  by code_simp

lemma detect_aborts_without_context:
  "getCanvasFingerprint (sample_browser\<lparr>context2d := None\<rparr>) = None
   \<and> detect default_config (sample_browser\<lparr>context2d := None\<rparr>) = Inl (TypeError ''ctx.font'')"
  by code_simp

text \<open>
  The claim C8 as it was stated (any check that throws is isolated, adds nothing to the
  score, and detection still produces a result) fails on the detector: a WebGL probe that
  throws is caught, but the missing component adds the fixed 15 points; and in a browser
  without \<^verbatim>\<open>navigator.plugins\<close> the headless check throws and \<^verbatim>\<open>detect\<close> ends with
  that error instead of a result.
\<close>

theorem detect_isolation_counterexample:
  "score_of (detect default_config sample_browser) = Some 0
   \<and> score_of (detect default_config (sample_browser\<lparr>webgl := Throws\<rparr>)) = Some 15
   \<and> detect default_config (sample_browser\<lparr>nav_plugins := None\<rparr>)
       = Inl (TypeError ''navigator.plugins.length'')"
  by code_simp

lemma and_then_assoc: "and_then (and_then r f) g = and_then r (\<lambda>x. and_then (f x) g)"
  by (cases r) (simp_all add: and_then_def)

lemma detect_split:
  "detect cfg env =
     and_then (immediate_checks cfg env) (\<lambda>d5.
     and_then (generateFingerprint env d5) (\<lambda>d6.
       (let d = calculateScore d6
        in Inr \<lparr>r_isBot = (d_score d \<ge> threshold (d_config d)), r_score = d_score d,
                r_checks = d_checks d, r_behaviors = d_behaviors d,
                r_fingerprint = d_fingerprint d\<rparr>)))"
  by (simp add: detect_def immediate_checks_def and_then_assoc)

lemma detectCDP_indep:
  "detectCDP (env\<lparr>webgl := w, audio := a, context2d := c\<rparr>) d = detectCDP env d"
  by (simp add: detectCDP_def cong: if_cong split del: if_split)

lemma detectWebDriver_indep:
  "detectWebDriver (env\<lparr>webgl := w, audio := a, context2d := c\<rparr>) d = detectWebDriver env d"
  by (simp add: detectWebDriver_def cong: if_cong split del: if_split)

lemma detectHeadless_indep:
  "detectHeadless (env\<lparr>webgl := w, audio := a, context2d := c\<rparr>) d = detectHeadless env d"
  by (simp add: detectHeadless_def checkPermissionsAsync_def
      cong: if_cong option.case_cong split del: if_split)

lemma checkNavigatorInconsistencies_indep:
  "checkNavigatorInconsistencies (env\<lparr>webgl := w, audio := a, context2d := c\<rparr>) d
   = checkNavigatorInconsistencies env d"
  by (simp add: checkNavigatorInconsistencies_def
      cong: if_cong option.case_cong split del: if_split)

lemma checkAutomationArtifacts_indep:
  "checkAutomationArtifacts (env\<lparr>webgl := w, audio := a, context2d := c\<rparr>) d
   = checkAutomationArtifacts env d"
  by (simp add: checkAutomationArtifacts_def
      cong: if_cong option.case_cong sum.case_cong split del: if_split)

lemma immediate_indep:
  "immediate_checks cfg (env\<lparr>webgl := w, audio := a, context2d := c\<rparr>)
   = immediate_checks cfg env"
  by (simp only: immediate_checks_def detectCDP_indep detectWebDriver_indep detectHeadless_indep
      checkNavigatorInconsistencies_indep checkAutomationArtifacts_indep)

lemma generateFingerprint_guarded:
  assumes "context2d env = Some ctx"
  shows "generateFingerprint env d =
     Inr (d\<lparr>d_fingerprint := Some \<lparr>fp_canvas = getCanvasFingerprint env,
                                      fp_webgl = getWebGLFingerprint env,
                                      fp_audio = getAudioFingerprint env,
                                      fp_fonts = projr (getFontFingerprint env),
                                      fp_screen = screen env, fp_browser = nav_rest env\<rparr>,
            d_score := d_score d + (if getCanvasFingerprint env = None \<or> getWebGLFingerprint env = None
                                     then 15 else 0)\<rparr>)"
  using assms by (simp add: generateFingerprint_def getFontFingerprint_def Let_def)

lemma detect_guarded:
  assumes "immediate_checks cfg env = Inr d5" and "context2d env = Some ctx"
  shows "detect cfg env =
     Inr \<lparr>r_isBot = (d_score d5 + (if getCanvasFingerprint env = None \<or> getWebGLFingerprint env = None
                                     then 15 else 0) \<ge> threshold (d_config d5)),
          r_score = d_score d5 + (if getCanvasFingerprint env = None \<or> getWebGLFingerprint env = None
                                  then 15 else 0),
          r_checks = (d_checks d5)\<lparr>ck_behaviorScore := Some 0\<rparr>,
          r_behaviors = d_behaviors d5,
          r_fingerprint = Some \<lparr>fp_canvas = getCanvasFingerprint env,
                                 fp_webgl = getWebGLFingerprint env,
                                 fp_audio = getAudioFingerprint env,
                                 fp_fonts = projr (getFontFingerprint env),
                                 fp_screen = screen env, fp_browser = nav_rest env\<rparr>\<rparr>"
  unfolding detect_split assms(1)
  by (simp add: and_then_def generateFingerprint_guarded [OF assms(2)] calculateScore_def Let_def)

text \<open>
  C8, amended. A failure inside the canvas, WebGL or audio probe is isolated to that probe:
  whatever the three probes do in a browser where \<^verbatim>\<open>detect\<close> produces a result and a
  canvas has a 2D context, \<^verbatim>\<open>detect\<close> still produces a result, with the same checks,
  behaviours, fonts, screen and browser data; the component of a probe that throws is
  null, the component of every probe is what that probe alone yields (so the component of
  a probe that behaves as before is what it was), and the score differs only by the fixed
  15 points for a missing canvas or WebGL component.
\<close>

theorem guarded_probes_isolated:
  assumes "detect cfg env = Inr r" and "context2d env = Some ctx"
  shows "\<exists>r' f f'.
       detect cfg (env\<lparr>webgl := w, audio := a, context2d := Some (ctx\<lparr>dataURL := u\<rparr>)\<rparr>) = Inr r'
     \<and> r_checks r' = r_checks r \<and> r_behaviors r' = r_behaviors r
     \<and> r_fingerprint r = Some f \<and> r_fingerprint r' = Some f'
     \<and> fp_fonts f' = fp_fonts f \<and> fp_screen f' = fp_screen f \<and> fp_browser f' = fp_browser f
     \<and> (w = Throws \<longrightarrow> fp_webgl f' = None) \<and> (a = Throws \<longrightarrow> fp_audio f' = None)
     \<and> (u = None \<longrightarrow> fp_canvas f' = None)
     \<and> fp_webgl f' = (case w of Present g \<Rightarrow> Some g | _ \<Rightarrow> None)
     \<and> fp_audio f' = (case a of Present x \<Rightarrow> Some x | _ \<Rightarrow> None)
     \<and> fp_canvas f' = (case u of None \<Rightarrow> None | Some s \<Rightarrow> Some (simpleHash s))
     \<and> (w = webgl env \<longrightarrow> fp_webgl f' = fp_webgl f)
     \<and> (a = audio env \<longrightarrow> fp_audio f' = fp_audio f)
     \<and> (u = dataURL ctx \<longrightarrow> fp_canvas f' = fp_canvas f)
     \<and> r_score r' - penalty f' = r_score r - penalty f"
proof -
  let ?env' = "env\<lparr>webgl := w, audio := a, context2d := Some (ctx\<lparr>dataURL := u\<rparr>)\<rparr>"
  let ?f = "\<lparr>fp_canvas = getCanvasFingerprint env, fp_webgl = getWebGLFingerprint env,
             fp_audio = getAudioFingerprint env, fp_fonts = projr (getFontFingerprint env),
             fp_screen = screen env, fp_browser = nav_rest env\<rparr>"
  let ?f' = "\<lparr>fp_canvas = getCanvasFingerprint ?env', fp_webgl = getWebGLFingerprint ?env',
              fp_audio = getAudioFingerprint ?env', fp_fonts = projr (getFontFingerprint ?env'),
              fp_screen = screen ?env', fp_browser = nav_rest ?env'\<rparr>"
  from assms(1) obtain d5 where d5: "immediate_checks cfg env = Inr d5"
    unfolding detect_split by (cases "immediate_checks cfg env") (simp_all add: and_then_def)
  have d5': "immediate_checks cfg ?env' = Inr d5" unfolding immediate_indep by (rule d5)
  have c': "context2d ?env' = Some (ctx\<lparr>dataURL := u\<rparr>)" by simp
  have fonts: "getFontFingerprint ?env' = getFontFingerprint env"
    using assms(2) by (simp add: getFontFingerprint_def)
  have r: "r = \<lparr>r_isBot = (d_score d5 + (if getCanvasFingerprint env = None \<or> getWebGLFingerprint env = None
                                     then 15 else 0) \<ge> threshold (d_config d5)),
          r_score = d_score d5 + (if getCanvasFingerprint env = None \<or> getWebGLFingerprint env = None
                                  then 15 else 0),
          r_checks = (d_checks d5)\<lparr>ck_behaviorScore := Some 0\<rparr>,
          r_behaviors = d_behaviors d5, r_fingerprint = Some ?f\<rparr>"
    using assms(1) unfolding detect_guarded [OF d5 assms(2)] by simp
  define r' where "r' = \<lparr>r_isBot = (d_score d5 + (if getCanvasFingerprint ?env' = None
                                                    \<or> getWebGLFingerprint ?env' = None
                                     then 15 else 0) \<ge> threshold (d_config d5)),
          r_score = d_score d5 + (if getCanvasFingerprint ?env' = None \<or> getWebGLFingerprint ?env' = None
                                  then 15 else 0),
          r_checks = (d_checks d5)\<lparr>ck_behaviorScore := Some 0\<rparr>,
          r_behaviors = d_behaviors d5, r_fingerprint = Some ?f'\<rparr>"
  have run: "detect cfg ?env' = Inr r'"
    unfolding r'_def by (rule detect_guarded [OF d5' c'])
  have same: "r_checks r' = r_checks r" "r_behaviors r' = r_behaviors r"
    by (simp_all add: r r'_def)
  have fps: "r_fingerprint r = Some ?f" "r_fingerprint r' = Some ?f'"
    by (simp_all add: r r'_def)
  have kept: "fp_fonts ?f' = fp_fonts ?f" "fp_screen ?f' = fp_screen ?f" "fp_browser ?f' = fp_browser ?f"
    by (simp_all add: fonts)
  have gl: "fp_webgl ?f' = (case w of Present g \<Rightarrow> Some g | _ \<Rightarrow> None)"
    by (simp add: getWebGLFingerprint_def)
  have au: "fp_audio ?f' = (case a of Present x \<Rightarrow> Some x | _ \<Rightarrow> None)"
    by (simp add: getAudioFingerprint_def)
  have cv: "fp_canvas ?f' = (case u of None \<Rightarrow> None | Some s \<Rightarrow> Some (simpleHash s))"
    by (simp add: getCanvasFingerprint_def)
  have thr: "w = Throws \<longrightarrow> fp_webgl ?f' = None" "a = Throws \<longrightarrow> fp_audio ?f' = None"
    "u = None \<longrightarrow> fp_canvas ?f' = None"
    unfolding gl au cv by simp_all
  have iso: "w = webgl env \<longrightarrow> fp_webgl ?f' = fp_webgl ?f"
    "a = audio env \<longrightarrow> fp_audio ?f' = fp_audio ?f"
    "u = dataURL ctx \<longrightarrow> fp_canvas ?f' = fp_canvas ?f"
    unfolding gl au cv using assms(2)
    by (simp_all add: getWebGLFingerprint_def getAudioFingerprint_def getCanvasFingerprint_def)
  have sc: "r_score r' - penalty ?f' = r_score r - penalty ?f"
    by (simp add: r r'_def penalty_def)
  from run same fps kept thr gl au cv iso sc show ?thesis by blast
qed

lemma sample_context: "context2d sample_browser = Some sample_canvas"
  by (simp add: sample_browser_def)

theorem guarded_probes_isolated_witness:
  "context2d sample_browser = Some sample_canvas
   \<and> score_of (detect default_config sample_browser) = Some 0
   \<and> score_of (detect default_config
        (sample_browser\<lparr>webgl := Throws, audio := Throws,
                         context2d := Some (sample_canvas\<lparr>dataURL := None\<rparr>)\<rparr>)) = Some 15"
proof -
  from guarded_probes_isolated [OF sample_detect sample_context, where w = Throws and a = Throws and u = None]
  obtain r' f' where "detect default_config
        (sample_browser\<lparr>webgl := Throws, audio := Throws,
                         context2d := Some (sample_canvas\<lparr>dataURL := None\<rparr>)\<rparr>) = Inr r'"
    and "r_fingerprint r' = Some f'" and "fp_webgl f' = None" and "r_score r' - penalty f' = 0 - 0"
    by (auto simp: penalty_def getWebGLFingerprint_def sample_browser_def)
  then have "score_of (detect default_config
        (sample_browser\<lparr>webgl := Throws, audio := Throws,
                         context2d := Some (sample_canvas\<lparr>dataURL := None\<rparr>)\<rparr>)) = Some 15"
    by (simp add: score_of_def penalty_def)
  with sample_context sample_detect show ?thesis by (simp add: score_of_def)
qed



end
